theory Spec2Isabelle
  imports Main "HOL-Library.Sublist" "HOL-Library.Multiset"
    "HOL-Library.List_Lexorder" "HOL-Library.Char_ord"
begin

section \<open>JavaScript values\<close>

text \<open>
  The leaderboard page reads four JSON files and works on their fields with the
  usual JavaScript coercions (\<^verbatim>\<open>v ?? ""\<close>, \<^verbatim>\<open>String(v)\<close>, truthiness). A field
  that the code coerces is a \<open>jsval\<close>; numbers are whole numbers (ids, ranks and
  times in seconds), strings are lists of characters.
\<close>

datatype jsval = JUndefined | JNull | JBool bool | JNum int | JStr string

text \<open>\<^verbatim>\<open>String(n)\<close> for a whole number \<open>n\<close>: its decimal digits.\<close>

definition digitChar :: "nat \<Rightarrow> char" where
  "digitChar d = ''0123456789'' ! d"

fun nat_to_dec :: "nat \<Rightarrow> string" where
  "nat_to_dec n =
     (if n < 10 then [digitChar n]
      else nat_to_dec (n div 10) @ [digitChar (n mod 10)])"

declare nat_to_dec.simps [simp del]

definition int_to_dec :: "int \<Rightarrow> string" where
  "int_to_dec i = (if i < 0 then CHR ''-'' # nat_to_dec (nat (- i)) else nat_to_dec (nat i))"

text \<open>\<^verbatim>\<open>String(v)\<close>.\<close>

fun toStr :: "jsval \<Rightarrow> string" where
  "toStr JUndefined = ''undefined''"
| "toStr JNull = ''null''"
| "toStr (JBool b) = (if b then ''true'' else ''false'')"
| "toStr (JNum n) = int_to_dec n"
| "toStr (JStr s) = s"

text \<open>\<^verbatim>\<open>v ?? d\<close>: the default replaces \<open>null\<close> and \<open>undefined\<close> only.\<close>

fun nullish :: "jsval \<Rightarrow> jsval \<Rightarrow> jsval" where
  "nullish JUndefined d = d"
| "nullish JNull d = d"
| "nullish v d = v"

text \<open>\<^verbatim>\<open>Boolean(v)\<close>, the test of \<^verbatim>\<open>v ? a : b\<close> and \<^verbatim>\<open>v && w\<close>.\<close>

fun truthy :: "jsval \<Rightarrow> bool" where
  "truthy JUndefined = False"
| "truthy JNull = False"
| "truthy (JBool b) = b"
| "truthy (JNum n) = (n \<noteq> 0)"
| "truthy (JStr s) = (s \<noteq> [])"

text \<open>\<^verbatim>\<open>xs.join(sep)\<close> on an array of strings.\<close>

fun join :: "string \<Rightarrow> string list \<Rightarrow> string" where
  "join sep [] = []"
| "join sep [x] = x"
| "join sep (x # y # ys) = x @ sep @ join sep (y # ys)"

section \<open>Escaping\<close>

text \<open>
  \<^verbatim>\<open>s.replaceAll(c, r)\<close> for a one-character pattern \<open>c\<close> and a replacement
  \<open>r\<close> without \<^verbatim>\<open>$\<close> patterns.
\<close>

definition replaceAll :: "char \<Rightarrow> string \<Rightarrow> string \<Rightarrow> string" where
  "replaceAll c r s = concat (map (\<lambda>x. if x = c then r else [x]) s)"

text \<open>
  \<^verbatim>\<open>
  function esc(v) {
    return String(v ?? "")
      .replaceAll("&", "&amp;")
      .replaceAll("<", "&lt;")
      .replaceAll(">", "&gt;")
      .replaceAll('"', "&quot;")
      .replaceAll("'", "&#39;");
  }
  \<close>
\<close>

definition esc :: "jsval \<Rightarrow> string" where
  "esc v =
     replaceAll (CHR 0x27) ''&#39;''
       (replaceAll (CHR 0x22) ''&quot;''
         (replaceAll CHR ''>'' ''&gt;''
           (replaceAll CHR ''<'' ''&lt;''
             (replaceAll CHR ''&'' ''&amp;'' (toStr (nullish v (JStr [])))))))"

text \<open>
  The entity of one character, as the specification words it: each of the five
  HTML-significant characters has its entity, every other character stands for itself.
\<close>

definition html_entity :: "char \<Rightarrow> string" where
  "html_entity c =
     (if c = CHR ''&'' then ''&amp;''
      else if c = CHR ''<'' then ''&lt;''
      else if c = CHR ''>'' then ''&gt;''
      else if c = CHR 0x22 then ''&quot;''
      else if c = CHR 0x27 then ''&#39;''
      else [c])"

section \<open>Time formatting\<close>

text \<open>
  The value of \<^verbatim>\<open>Number(seconds)\<close>: a finite double or one of the three non-finite
  doubles. A finite double is a dyadic number: \<open>Finite k e\<close> is \<open>k / 2^e\<close>, so
  \<open>Finite 454 0\<close> is 454 and \<open>Finite 131 1\<close> is 65.5. The model computes with the
  exact value; it agrees with the double arithmetic of the code for \<open>\<bar>k\<bar> < 2^53\<close> and
  \<open>e \<le> 13\<close>: there \<^verbatim>\<open>abs % 60\<close> is exact, \<^verbatim>\<open>Math.floor(abs / 60)\<close> is the
  integer quotient, and \<^verbatim>\<open>String\<close> prints the exact decimal expansion (at most 15
  significant digits, no exponent notation).
\<close>

datatype jsnum = Finite int nat | NaN | PosInfinity | NegInfinity

text \<open>\<^verbatim>\<open>s.padStart(n, c)\<close> for a one-character pad string.\<close>

definition padStart :: "nat \<Rightarrow> char \<Rightarrow> string \<Rightarrow> string" where
  "padStart n c s = replicate (n - length s) c @ s"

text \<open>
  \<^verbatim>\<open>String(x)\<close> for a non-negative finite number \<open>x = k / 2^e\<close>: the integer part,
  and, when \<open>x\<close> is not whole, a point and the digits of the fraction
  \<open>f / 2^e = f * 5^e / 10^e\<close> without trailing zeros.
\<close>

definition fractionDigits :: "nat \<Rightarrow> nat \<Rightarrow> string" where
  "fractionDigits f e =
     rev (dropWhile (\<lambda>c. c = CHR ''0'') (rev (padStart e CHR ''0'' (nat_to_dec (f * 5 ^ e)))))"

definition numberToString :: "nat \<Rightarrow> nat \<Rightarrow> string" where
  "numberToString k e =
     (let whole = k div 2 ^ e;
          f = k mod 2 ^ e
      in if f = 0 then nat_to_dec whole
         else nat_to_dec whole @ ''.'' @ fractionDigits f e)"

text \<open>
  \<^verbatim>\<open>
  function formatTime(seconds) {
    const n = Number(seconds);
    if (!Number.isFinite(n)) return "";
    const abs = Math.abs(n);
    const m = Math.floor(abs / 60);
    const s = abs % 60;
    const ss = String(s).padStart(2, "0");
    if (n < 0) return `${m}'${ss} Remaining`;
    return `${m}'${ss}`;
  }
  \<close>
  With \<open>n = k / 2^e\<close>: \<open>abs\<close> is \<open>\<bar>k\<bar> / 2^e\<close>, \<open>m\<close> is the whole number
  \<open>\<bar>k\<bar> div (60 * 2^e)\<close> and \<open>s\<close> is \<open>(\<bar>k\<bar> mod (60 * 2^e)) / 2^e\<close>.
\<close>

fun formatTime :: "jsnum \<Rightarrow> string" where
  "formatTime (Finite k e) =
     (let a = \<bar>k\<bar>;
          m = a div (60 * 2 ^ e);
          s = a mod (60 * 2 ^ e);
          ss = padStart 2 CHR ''0'' (numberToString (nat s) e)
      in if k < 0 then int_to_dec m @ [CHR 0x27] @ ss @ '' Remaining''
         else int_to_dec m @ [CHR 0x27] @ ss)"
| "formatTime NaN = []"
| "formatTime PosInfinity = []"
| "formatTime NegInfinity = []"

section \<open>Entities\<close>

record run =
  r_id :: int
  r_quest_id :: int
  r_meta :: jsval
  r_category :: jsval
  r_pb :: jsval
  r_time :: int
  r_rank :: int

record player_record =
  pr_id :: int
  pr_record_id :: int
  pr_player_id :: int
  pr_pso_class :: jsval
  pr_pov :: jsval

record quest =
  q_id :: int
  q_name :: string

record player =
  p_id :: int
  p_name :: string

section \<open>Group key\<close>

text \<open>
  \<^verbatim>\<open>
  function groupKey(record, questName) {
    return [
      questName ?? "(unknown quest)",
      record.meta ?? "",
      record.category ?? "",
      record.pb ? "PB" : "NoPB",
    ].join("||");
  }
  \<close>
  \<open>questName\<close> is \<^verbatim>\<open>questById.get(record.quest_id)?.name\<close>: a name, or \<open>undefined\<close>
  (\<open>None\<close>) when the quest is not in the index.
\<close>

definition groupKey :: "run \<Rightarrow> string option \<Rightarrow> string" where
  "groupKey record questName =
     join ''||''
       [case questName of None \<Rightarrow> ''(unknown quest)'' | Some q \<Rightarrow> q,
        toStr (nullish (r_meta record) (JStr [])),
        toStr (nullish (r_category record) (JStr [])),
        if truthy (r_pb record) then ''PB'' else ''NoPB'']"

section \<open>Normalisation of search strings\<close>

text \<open>
  \<^verbatim>\<open>
  function normalize(s) {
    return (s ?? "").toString().trim().toLowerCase();
  }
  \<close>
  A character of the model is a code unit below 256 (ASCII and Latin-1). In that range
  \<open>trim\<close> removes, at both ends, the white space and line terminators of the language
  (tab, line feed, vertical tab, form feed, carriage return, space and the no-break space
  U+00A0), and \<open>toLowerCase\<close> maps \<open>A\<close>..\<open>Z\<close> and the capital letters U+00C0..U+00DE
  (without the multiplication sign U+00D7) to their small letters, 32 code units higher;
  every other character is kept. Code units from 256 on are outside the model.
\<close>

definition isSpace :: "char \<Rightarrow> bool" where
  "isSpace c =
     (c \<in> set [CHR 0x09, CHR 0x0A, CHR 0x0B, CHR 0x0C, CHR 0x0D, CHR '' '', CHR 0xA0])"

definition trim :: "string \<Rightarrow> string" where
  "trim s = rev (dropWhile isSpace (rev (dropWhile isSpace s)))"

definition upperCaseLetters :: string where
  "upperCaseLetters =
     ''ABCDEFGHIJKLMNOPQRSTUVWXYZ''
     @ [CHR 0xC0, CHR 0xC1, CHR 0xC2, CHR 0xC3, CHR 0xC4, CHR 0xC5, CHR 0xC6, CHR 0xC7,
          CHR 0xC8, CHR 0xC9, CHR 0xCA, CHR 0xCB, CHR 0xCC, CHR 0xCD, CHR 0xCE, CHR 0xCF,
          CHR 0xD0, CHR 0xD1, CHR 0xD2, CHR 0xD3, CHR 0xD4, CHR 0xD5, CHR 0xD6, CHR 0xD8,
          CHR 0xD9, CHR 0xDA, CHR 0xDB, CHR 0xDC, CHR 0xDD, CHR 0xDE]"

definition lowerCaseLetters :: string where
  "lowerCaseLetters =
     ''abcdefghijklmnopqrstuvwxyz''
     @ [CHR 0xE0, CHR 0xE1, CHR 0xE2, CHR 0xE3, CHR 0xE4, CHR 0xE5, CHR 0xE6, CHR 0xE7,
          CHR 0xE8, CHR 0xE9, CHR 0xEA, CHR 0xEB, CHR 0xEC, CHR 0xED, CHR 0xEE, CHR 0xEF,
          CHR 0xF0, CHR 0xF1, CHR 0xF2, CHR 0xF3, CHR 0xF4, CHR 0xF5, CHR 0xF6, CHR 0xF8,
          CHR 0xF9, CHR 0xFA, CHR 0xFB, CHR 0xFC, CHR 0xFD, CHR 0xFE]"

definition toLowerChar :: "char \<Rightarrow> char" where
  "toLowerChar c =
     (case map_of (zip upperCaseLetters lowerCaseLetters) c of
        Some d \<Rightarrow> d
      | None \<Rightarrow> c)"

definition toLowerCase :: "string \<Rightarrow> string" where
  "toLowerCase s = map toLowerChar s"

definition normalize :: "jsval \<Rightarrow> string" where
  "normalize s = toLowerCase (trim (toStr (nullish s (JStr []))))"

section \<open>Filtering\<close>

text \<open>
  \<^verbatim>\<open>
  function filterRecords(records, playerRecords, selectedPlayerIds, selectedClasses,
                         metaVal, countVal, pbVal) {
    let allowedByPlayers = null;
    let allowedByClasses = null;
    if (selectedPlayerIds.size) {
      allowedByPlayers = new Set();
      for (const pr of playerRecords) {
        if (selectedPlayerIds.has(String(pr.player_id))) allowedByPlayers.add(pr.record_id);
      }
    }
    if (selectedClasses.size) {
      allowedByClasses = new Set();
      for (const pr of playerRecords) {
        const cls = normalize(pr.pso_class);
        if (selectedClasses.has(cls)) allowedByClasses.add(pr.record_id);
      }
    }
    return records.filter((r) => {
      if (metaVal && String(r.meta) !== metaVal) return false;
      if (countVal && String(r.category) !== countVal) return false;
      if (pbVal !== "" && String(Number(Boolean(r.pb))) !== pbVal) return false;
      if (allowedByPlayers && !allowedByPlayers.has(r.id)) return false;
      if (allowedByClasses && !allowedByClasses.has(r.id)) return false;
      return true;
    });
  }
  \<close>
  The two selections are sets of strings (player ids as \<^verbatim>\<open>String(p.id)\<close>, normalised
  class names); the three values are the values of the select boxes, \<open>""\<close> for "All".
\<close>

definition numberOfBoolean :: "bool \<Rightarrow> int" where
  "numberOfBoolean b = (if b then 1 else 0)"

definition filterRecords ::
  "run list \<Rightarrow> player_record list \<Rightarrow> string set \<Rightarrow> string set \<Rightarrow>
   string \<Rightarrow> string \<Rightarrow> string \<Rightarrow> run list" where
  "filterRecords records playerRecords selectedPlayerIds selectedClasses metaVal countVal pbVal =
     (let allowedByPlayers =
            (if selectedPlayerIds \<noteq> {}
             then Some (fold (\<lambda>pr allowed.
                          if toStr (JNum (pr_player_id pr)) \<in> selectedPlayerIds
                          then insert (pr_record_id pr) allowed else allowed)
                        playerRecords {})
             else None);
          allowedByClasses =
            (if selectedClasses \<noteq> {}
             then Some (fold (\<lambda>pr allowed.
                          let cls = normalize (pr_pso_class pr)
                          in if cls \<in> selectedClasses
                             then insert (pr_record_id pr) allowed else allowed)
                        playerRecords {})
             else None)
      in filter (\<lambda>r.
           if metaVal \<noteq> [] \<and> toStr (r_meta r) \<noteq> metaVal then False
           else if countVal \<noteq> [] \<and> toStr (r_category r) \<noteq> countVal then False
           else if pbVal \<noteq> [] \<and> toStr (JNum (numberOfBoolean (truthy (r_pb r)))) \<noteq> pbVal
             then False
           else if (case allowedByPlayers of None \<Rightarrow> False | Some allowed \<Rightarrow> r_id r \<notin> allowed)
             then False
           else if (case allowedByClasses of None \<Rightarrow> False | Some allowed \<Rightarrow> r_id r \<notin> allowed)
             then False
           else True) records)"

text \<open>
  The filter as the specification words it: a record passes when every active
  predicate holds; an empty selection or value is no predicate.
\<close>

definition hasSelectedPlayer :: "player_record list \<Rightarrow> string set \<Rightarrow> run \<Rightarrow> bool" where
  "hasSelectedPlayer playerRecords selectedPlayerIds r =
     (\<exists>pr \<in> set playerRecords.
        pr_record_id pr = r_id r \<and> toStr (JNum (pr_player_id pr)) \<in> selectedPlayerIds)"

definition hasSelectedClass :: "player_record list \<Rightarrow> string set \<Rightarrow> run \<Rightarrow> bool" where
  "hasSelectedClass playerRecords selectedClasses r =
     (\<exists>pr \<in> set playerRecords.
        pr_record_id pr = r_id r \<and> normalize (pr_pso_class pr) \<in> selectedClasses)"

definition passesFilters ::
  "player_record list \<Rightarrow> string set \<Rightarrow> string set \<Rightarrow> string \<Rightarrow> string \<Rightarrow> string \<Rightarrow>
   run \<Rightarrow> bool" where
  "passesFilters playerRecords selectedPlayerIds selectedClasses metaVal countVal pbVal r =
     ((metaVal = [] \<or> toStr (r_meta r) = metaVal)
      \<and> (countVal = [] \<or> toStr (r_category r) = countVal)
      \<and> (pbVal = [] \<or> (if truthy (r_pb r) then ''1'' else ''0'') = pbVal)
      \<and> (selectedPlayerIds = {} \<or> hasSelectedPlayer playerRecords selectedPlayerIds r)
      \<and> (selectedClasses = {} \<or> hasSelectedClass playerRecords selectedClasses r))"

section \<open>Typeahead suggestions\<close>

text \<open>
  \<^verbatim>\<open>
  function buildSuggestionList(query) {
    const q = normalize(query);
    if (!q) return "";
    const matches = [];
    for (const it of items) {
      if (selectedSet.has(it.key)) continue;
      if (normalize(it.label).includes(q)) matches.push(it);
      if (matches.length >= 10) break;
    }
    if (!matches.length) return "";
    return matches
      .map((it) => `<div class="suggestion" data-key="${esc(it.key)}">${esc(it.label)}</div>`)
      .join("");
  }
  \<close>
  \<open>items\<close> and \<open>selectedSet\<close> are the variables of the enclosing
  \<open>wireMultiTypeahead\<close>; \<open>s.includes(q)\<close> is \<open>sublist q s\<close>.
\<close>

record item =
  it_key :: string
  it_label :: string

fun collectMatches :: "string set \<Rightarrow> string \<Rightarrow> item list \<Rightarrow> item list \<Rightarrow> item list" where
  "collectMatches selectedSet q [] matches = matches"
| "collectMatches selectedSet q (it # items) matches =
     (if it_key it \<in> selectedSet then collectMatches selectedSet q items matches
      else
        let matches' =
              (if sublist q (normalize (JStr (it_label it))) then matches @ [it] else matches)
        in if length matches' \<ge> 10 then matches'
           else collectMatches selectedSet q items matches')"

definition suggestionHtml :: "item \<Rightarrow> string" where
  "suggestionHtml it =
     ''<div class=\"suggestion\" data-key=\"'' @ esc (JStr (it_key it)) @ ''\">''
       @ esc (JStr (it_label it)) @ ''</div>''"

definition buildSuggestionList :: "item list \<Rightarrow> string set \<Rightarrow> string \<Rightarrow> string" where
  "buildSuggestionList items selectedSet query =
     (let q = normalize (JStr query)
      in if q = [] then []
         else
           let matches = collectMatches selectedSet q items []
           in if length matches = 0 then []
              else join [] (map suggestionHtml matches))"

text \<open>The items the specification asks for: not selected, label containing the query.\<close>

definition suggested :: "string set \<Rightarrow> string \<Rightarrow> item \<Rightarrow> bool" where
  "suggested selectedSet q it =
     (it_key it \<notin> selectedSet \<and> sublist q (normalize (JStr (it_label it))))"

section \<open>Index, selection and join\<close>

text \<open>
  \<^verbatim>\<open>
  function buildIdMap(items) {
    const m = new Map();
    for (const it of items) m.set(it.id, it);
    return m;
  }
  \<close>
  The field \<open>id\<close> is passed as a function, since quests and players are different
  record types.
\<close>

definition buildIdMap :: "('a \<Rightarrow> int) \<Rightarrow> 'a list \<Rightarrow> (int \<rightharpoonup> 'a)" where
  "buildIdMap getId items = fold (\<lambda>it m. m(getId it \<mapsto> it)) items Map.empty"

text \<open>
  \<^verbatim>\<open>xs.sort(cmp)\<close>: the sort of the language is stable and orders by the sign of the
  comparator. It is modelled as the stable insertion sort; for a comparator that is a
  consistent ordering of the elements every conforming sort returns this list.
\<close>

fun insertBy :: "('a \<Rightarrow> 'a \<Rightarrow> int) \<Rightarrow> 'a \<Rightarrow> 'a list \<Rightarrow> 'a list" where
  "insertBy cmp x [] = [x]"
| "insertBy cmp x (y # ys) = (if cmp x y \<le> 0 then x # y # ys else y # insertBy cmp x ys)"

definition sortBy :: "('a \<Rightarrow> 'a \<Rightarrow> int) \<Rightarrow> 'a list \<Rightarrow> 'a list" where
  "sortBy cmp xs = foldr (insertBy cmp) xs []"

text \<open>
  \<^verbatim>\<open>xs.slice(0, n)\<close>: a negative end counts from the end of the array.
\<close>

definition slice0 :: "'a list \<Rightarrow> int \<Rightarrow> 'a list" where
  "slice0 xs n = (if n < 0 then take (nat (int (length xs) + n)) xs else take (nat n) xs)"

text \<open>
  \<^verbatim>\<open>const selected = (limitN ? records.slice(0, limitN) : records);\<close>
  where \<open>limitN\<close> is \<open>null\<close> (\<open>None\<close>) or a whole number.
\<close>

definition selected :: "run list \<Rightarrow> int option \<Rightarrow> run list" where
  "selected records limitN =
     (case limitN of
        None \<Rightarrow> records
      | Some n \<Rightarrow> if n \<noteq> 0 then slice0 records n else records)"

record joined_row =
  row_record :: run
  row_questName :: "string option"
  row_pr :: "player_record option"
  row_playerName :: string
  row_cls :: jsval
  row_pov :: jsval

text \<open>
  The body of the join loop of \<open>renderGroupedTable\<close>: the rows pushed for one record.
  \<^verbatim>\<open>
    const questName = questById.get(record.quest_id)?.name;
    const prsForRecord = playerRecords
      .filter((pr) => pr.record_id === record.id)
      .sort((a, b) => a.id - b.id);
    if (prsForRecord.length === 0) {
      joinedRows.push({ record, questName, pr: null,
                        playerName: "(none found)", cls: "", pov: "" });
      continue;
    }
    for (const pr of prsForRecord) {
      const p = playerById.get(pr.player_id);
      joinedRows.push({ record, questName, pr,
        playerName: p?.name ?? `(unknown player ${pr.player_id})`,
        cls: pr.pso_class ?? "", pov: pr.pov ?? "" });
    }
  \<close>
\<close>

definition prsForRecord :: "player_record list \<Rightarrow> run \<Rightarrow> player_record list" where
  "prsForRecord playerRecords record =
     sortBy (\<lambda>a b. pr_id a - pr_id b)
       (filter (\<lambda>pr. pr_record_id pr = r_id record) playerRecords)"

definition participantRow ::
  "(int \<rightharpoonup> player) \<Rightarrow> run \<Rightarrow> string option \<Rightarrow> player_record \<Rightarrow> joined_row" where
  "participantRow playerById record questName pr =
     \<lparr>row_record = record,
      row_questName = questName,
      row_pr = Some pr,
      row_playerName =
        (case playerById (pr_player_id pr) of
           Some p \<Rightarrow> p_name p
         | None \<Rightarrow> ''(unknown player '' @ toStr (JNum (pr_player_id pr)) @ '')''),
      row_cls = nullish (pr_pso_class pr) (JStr []),
      row_pov = nullish (pr_pov pr) (JStr [])\<rparr>"

definition joinRecord ::
  "(int \<rightharpoonup> quest) \<Rightarrow> player_record list \<Rightarrow> (int \<rightharpoonup> player) \<Rightarrow> run \<Rightarrow> joined_row list" where
  "joinRecord questById playerRecords playerById record =
     (let questName = map_option q_name (questById (r_quest_id record));
          prs = prsForRecord playerRecords record
      in if length prs = 0
         then [\<lparr>row_record = record, row_questName = questName, row_pr = None,
                 row_playerName = ''(none found)'', row_cls = JStr [], row_pov = JStr []\<rparr>]
         else map (participantRow playerById record questName) prs)"

definition joinRows ::
  "(int \<rightharpoonup> quest) \<Rightarrow> player_record list \<Rightarrow> (int \<rightharpoonup> player) \<Rightarrow> run list \<Rightarrow> joined_row list" where
  "joinRows questById playerRecords playerById records =
     fold (\<lambda>record joinedRows. joinedRows @ joinRecord questById playerRecords playerById record)
       records []"

section \<open>Sorting the joined rows\<close>

text \<open>
  \<^verbatim>\<open>
  joinedRows.sort((a, b) => {
    const ka = groupKey(a.record, a.questName);
    const kb = groupKey(b.record, b.questName);
    if (ka !== kb) return ka.localeCompare(kb);
    if (a.record.id !== b.record.id) {
      if (a.record.rank !== b.record.rank) return a.record.rank - b.record.rank;
      if (a.record.time !== b.record.time) return a.record.time - b.record.time;
      return a.record.id - b.record.id;
    }
    const aid = a.pr?.id ?? 0;
    const bid = b.pr?.id ?? 0;
    if (aid !== bid) return aid - bid;
    return a.playerName.localeCompare(b.playerName);
  });
  \<close>
  \<open>localeCompare\<close> is the collation of the browser's locale; it is a parameter of the
  model.
\<close>

definition rowKey :: "joined_row \<Rightarrow> string" where
  "rowKey row = groupKey (row_record row) (row_questName row)"

definition prIdOf :: "joined_row \<Rightarrow> int" where
  "prIdOf row = (case row_pr row of None \<Rightarrow> 0 | Some pr \<Rightarrow> pr_id pr)"

definition compareRows :: "(string \<Rightarrow> string \<Rightarrow> int) \<Rightarrow> joined_row \<Rightarrow> joined_row \<Rightarrow> int" where
  "compareRows localeCompare a b =
     (let ka = rowKey a;
          kb = rowKey b
      in if ka \<noteq> kb then localeCompare ka kb
         else if r_id (row_record a) \<noteq> r_id (row_record b) then
           (if r_rank (row_record a) \<noteq> r_rank (row_record b)
              then r_rank (row_record a) - r_rank (row_record b)
            else if r_time (row_record a) \<noteq> r_time (row_record b)
              then r_time (row_record a) - r_time (row_record b)
            else r_id (row_record a) - r_id (row_record b))
         else
           let aid = prIdOf a;
               bid = prIdOf b
           in if aid \<noteq> bid then aid - bid
              else localeCompare (row_playerName a) (row_playerName b))"

definition sortRows :: "(string \<Rightarrow> string \<Rightarrow> int) \<Rightarrow> joined_row list \<Rightarrow> joined_row list" where
  "sortRows localeCompare joinedRows = sortBy (compareRows localeCompare) joinedRows"

text \<open>
  What the language promises of \<open>localeCompare\<close>: it is a consistent comparison (zero
  on equal strings, antisymmetric in sign, transitive). It may return zero for two
  different strings: strings that are canonically equivalent, or that differ only in
  characters the collation ignores, compare as equal.
\<close>

definition consistentCompare :: "(string \<Rightarrow> string \<Rightarrow> int) \<Rightarrow> bool" where
  "consistentCompare lc =
     ((\<forall>a. lc a a = 0)
      \<and> (\<forall>a b. lc a b < 0 \<longleftrightarrow> 0 < lc b a)
      \<and> (\<forall>a b c. lc a b \<le> 0 \<and> lc b c \<le> 0 \<longrightarrow> lc a c \<le> 0))"


text \<open>
  Two comparisons for the examples: by the characters of the strings, and the same
  after the control character U+0001 is dropped from both strings (collations ignore
  control characters, so \<open>localeCompare\<close> is zero for strings that differ only there).
\<close>

definition codeUnitCompare :: "string \<Rightarrow> string \<Rightarrow> int" where
  "codeUnitCompare a b = (if a = b then 0 else if a < b then - 1 else 1)"


text \<open>
  The order of the specification: group key first; then rank, time and record id;
  then, within one record, the player-record id and the participant's name.
\<close>

definition rowBefore :: "(string \<Rightarrow> string \<Rightarrow> int) \<Rightarrow> joined_row \<Rightarrow> joined_row \<Rightarrow> bool" where
  "rowBefore lc a b =
     (lc (rowKey a) (rowKey b) < 0
      \<or> (rowKey a = rowKey b
          \<and> (r_rank (row_record a) < r_rank (row_record b)
              \<or> (r_rank (row_record a) = r_rank (row_record b)
                  \<and> (r_time (row_record a) < r_time (row_record b)
                      \<or> (r_time (row_record a) = r_time (row_record b)
                          \<and> (r_id (row_record a) < r_id (row_record b)
                              \<or> (r_id (row_record a) = r_id (row_record b)
                                  \<and> (prIdOf a < prIdOf b
                                      \<or> (prIdOf a = prIdOf b
                                          \<and> lc (row_playerName a) (row_playerName b) \<le> 0))))))))))"

text \<open>The part of the order below the group key.\<close>

definition withinGroup :: "(string \<Rightarrow> string \<Rightarrow> int) \<Rightarrow> joined_row \<Rightarrow> joined_row \<Rightarrow> bool" where
  "withinGroup lc a b =
     (r_rank (row_record a) < r_rank (row_record b)
              \<or> (r_rank (row_record a) = r_rank (row_record b)
                  \<and> (r_time (row_record a) < r_time (row_record b)
                      \<or> (r_time (row_record a) = r_time (row_record b)
                          \<and> (r_id (row_record a) < r_id (row_record b)
                              \<or> (r_id (row_record a) = r_id (row_record b)
                                  \<and> (prIdOf a < prIdOf b
                                      \<or> (prIdOf a = prIdOf b
                                          \<and> lc (row_playerName a) (row_playerName b) \<le> 0))))))))"

text \<open>
  Record ids are unique: rows with the same record id are rows of the same record, so
  they agree on its rank and time.
\<close>

definition uniqueRecordIds :: "joined_row list \<Rightarrow> bool" where
  "uniqueRecordIds rows =
     (\<forall>a \<in> set rows. \<forall>b \<in> set rows.
        r_id (row_record a) = r_id (row_record b) \<longrightarrow>
        r_rank (row_record a) = r_rank (row_record b)
        \<and> r_time (row_record a) = r_time (row_record b))"

section \<open>Rendering\<close>

definition headers :: "string list" where
  "headers = [''Quest'', ''Meta'', ''Category'', ''PB'', ''Time'', ''Rank'', ''Player'', ''Class'',
              ''POV'']"

text \<open>
  \<^verbatim>\<open>
  function groupLabel(record, questName) {
    const pbText = record.pb ? "PB" : "No-PB";
    return `${questName ?? "(unknown quest)"} - ${record.category} - ${record.meta} - ${pbText}`;
  }
  \<close>
  where each \<^verbatim>\<open>-\<close> stands for the em dash of the source, U+2014; it is outside
  the code units of the model and stands here as its three UTF-8 bytes, which \<open>esc\<close>
  leaves as they are.
\<close>

definition emDash :: string where
  "emDash = [CHR '' '', CHR 0xE2, CHR 0x80, CHR 0x94, CHR '' '']"

definition groupLabel :: "run \<Rightarrow> string option \<Rightarrow> string" where
  "groupLabel record questName =
     (let pbText = (if truthy (r_pb record) then ''PB'' else ''No-PB'')
      in (case questName of None \<Rightarrow> ''(unknown quest)'' | Some q \<Rightarrow> q)
           @ emDash @ toStr (r_category record)
           @ emDash @ toStr (r_meta record)
           @ emDash @ pbText)"

definition thead :: string where
  "thead =
     ''<thead><tr>'' @ join [] (map (\<lambda>h. ''<th>'' @ esc (JStr h) @ ''</th>'') headers)
       @ ''</tr></thead>''"

text \<open>The two rows pushed when the group key changes.\<close>

definition groupLabelTr :: "run \<Rightarrow> string option \<Rightarrow> string" where
  "groupLabelTr record questName =
     ''<tr class=\"group-label\"><td colspan=\"'' @ toStr (JNum (int (length headers))) @ ''\">''
       @ esc (JStr (groupLabel record questName)) @ ''</td></tr>''"

definition groupDividerTr :: string where
  "groupDividerTr =
     ''<tr class=\"group-divider\"><td colspan=\"'' @ toStr (JNum (int (length headers)))
       @ ''\"><div class=\"bar\"></div></td></tr>''"

text \<open>
  \<^verbatim>\<open>/^https?:\/\//i.test(s)\<close>: the string starts with \<open>http://\<close> or \<open>https://\<close>,
  in any case of the letters.
\<close>

definition isHttpUrl :: "string \<Rightarrow> bool" where
  "isHttpUrl s = (prefix ''http://'' (toLowerCase s) \<or> prefix ''https://'' (toLowerCase s))"

text \<open>
  \<^verbatim>\<open>
    const povHTML =
      row.pov && /^https?:\/\//i.test(row.pov)
        ? `<a href="${esc(row.pov)}" target="_blank" rel="noopener noreferrer">${esc(row.pov)}</a>`
        : esc(row.pov);
  \<close>
\<close>

definition povHTML :: "jsval \<Rightarrow> string" where
  "povHTML pov =
     (if truthy pov \<and> isHttpUrl (toStr pov)
      then ''<a href=\"'' @ esc pov @ ''\" target=\"_blank\" rel=\"noopener noreferrer\">''
             @ esc pov @ ''</a>''
      else esc pov)"

text \<open>
  The object \<open>dataRow\<close> of one table row, as the list of its properties, and the
  property access \<^verbatim>\<open>dataRow[h]\<close>.
  \<^verbatim>\<open>
    const dataRow = {
      Quest: isFirstRowForThisRecord ? (questName ?? "(unknown quest)") : "",
      Meta: isFirstRowForThisRecord ? record.meta : "",
      Category: isFirstRowForThisRecord ? record.category : "",
      PB: isFirstRowForThisRecord ? pbText : "",
      Time: isFirstRowForThisRecord ? formatTime(record.time) : "",
      Rank: isFirstRowForThisRecord ? record.rank : "",
      Player: row.playerName,
      Class: row.cls,
      POV: povHTML,
    };
    const tds = headers.map((h) => {
      if (h === "POV") return `<td>${dataRow[h]}</td>`;
      return `<td>${esc(dataRow[h])}</td>`;
    }).join("");
    tbodyRows.push(`<tr>${tds}</tr>`);
  \<close>
\<close>

definition dataRow :: "bool \<Rightarrow> joined_row \<Rightarrow> (string \<times> jsval) list" where
  "dataRow isFirstRowForThisRecord row =
     (let record = row_record row;
          questName = row_questName row;
          pbText = (if truthy (r_pb record) then ''PB'' else ''No-PB'')
      in [(''Quest'', if isFirstRowForThisRecord
                      then JStr (case questName of None \<Rightarrow> ''(unknown quest)'' | Some q \<Rightarrow> q)
                      else JStr []),
          (''Meta'', if isFirstRowForThisRecord then r_meta record else JStr []),
          (''Category'', if isFirstRowForThisRecord then r_category record else JStr []),
          (''PB'', if isFirstRowForThisRecord then JStr pbText else JStr []),
          (''Time'', if isFirstRowForThisRecord then JStr (formatTime (Finite (r_time record) 0))
                     else JStr []),
          (''Rank'', if isFirstRowForThisRecord then JNum (r_rank record) else JStr []),
          (''Player'', JStr (row_playerName row)),
          (''Class'', row_cls row),
          (''POV'', JStr (povHTML (row_pov row)))])"

definition getProp :: "(string \<times> jsval) list \<Rightarrow> string \<Rightarrow> jsval" where
  "getProp obj h = (case map_of obj h of Some v \<Rightarrow> v | None \<Rightarrow> JUndefined)"

definition dataTr :: "bool \<Rightarrow> joined_row \<Rightarrow> string" where
  "dataTr isFirstRowForThisRecord row =
     (let obj = dataRow isFirstRowForThisRecord row;
          tds = join [] (map (\<lambda>h. if h = ''POV'' then ''<td>'' @ toStr (getProp obj h) @ ''</td>''
                                  else ''<td>'' @ esc (getProp obj h) @ ''</td>'') headers)
      in ''<tr>'' @ tds @ ''</tr>'')"

text \<open>
  The variables of the render loop, and one pass of its body.
  \<^verbatim>\<open>
    let lastGroup = null;
    let lastRecordIdWithinGroup = null;
    const tbodyRows = [];
    for (const row of joinedRows) {
      const record = row.record;
      const questName = row.questName;
      const gk = groupKey(record, questName);
      if (gk !== lastGroup) {
        tbodyRows.push(`<tr class="group-label">...</tr>`);
        tbodyRows.push(`<tr class="group-divider">...</tr>`);
        lastGroup = gk;
        lastRecordIdWithinGroup = null;
      }
      const isFirstRowForThisRecord = record.id !== lastRecordIdWithinGroup;
      if (isFirstRowForThisRecord) lastRecordIdWithinGroup = record.id;
      ...
      tbodyRows.push(`<tr>${tds}</tr>`);
    }
  \<close>
\<close>

record render_state =
  lastGroup :: "string option"
  lastRecordIdWithinGroup :: "int option"
  tbodyRows :: "string list"

definition renderRow :: "joined_row \<Rightarrow> render_state \<Rightarrow> render_state" where
  "renderRow row st =
     (let record = row_record row;
          questName = row_questName row;
          gk = groupKey record questName;
          st1 = (if Some gk \<noteq> lastGroup st
                 then st\<lparr>tbodyRows := tbodyRows st @ [groupLabelTr record questName, groupDividerTr],
                         lastGroup := Some gk,
                         lastRecordIdWithinGroup := None\<rparr>
                 else st);
          isFirstRowForThisRecord = (Some (r_id record) \<noteq> lastRecordIdWithinGroup st1);
          st2 = (if isFirstRowForThisRecord
                 then st1\<lparr>lastRecordIdWithinGroup := Some (r_id record)\<rparr>
                 else st1)
      in st2\<lparr>tbodyRows := tbodyRows st2 @ [dataTr isFirstRowForThisRecord row]\<rparr>)"

definition renderRows :: "joined_row list \<Rightarrow> render_state" where
  "renderRows joinedRows =
     fold renderRow joinedRows
       \<lparr>lastGroup = None, lastRecordIdWithinGroup = None, tbodyRows = []\<rparr>"

text \<open>
  \<^verbatim>\<open>
  function renderGroupedTable(records, questById, playerRecords, playerById, limitN) {
    const headers = [...];
    const selected = (limitN ? records.slice(0, limitN) : records);
    const joinedRows = [];
    for (const record of selected) { ... }
    joinedRows.sort(...);
    const thead = ...;
    for (const row of joinedRows) { ... }
    const tbody = `<tbody>${tbodyRows.join("")}</tbody>`;
    return `<table class="pivot">${thead}${tbody}</table>`;
  }
  \<close>
\<close>

definition renderGroupedTable ::
  "(string \<Rightarrow> string \<Rightarrow> int) \<Rightarrow> run list \<Rightarrow> (int \<rightharpoonup> quest) \<Rightarrow> player_record list \<Rightarrow>
   (int \<rightharpoonup> player) \<Rightarrow> int option \<Rightarrow> string" where
  "renderGroupedTable localeCompare records questById playerRecords playerById limitN =
     (let joinedRows = joinRows questById playerRecords playerById (selected records limitN);
          sortedRows = sortRows localeCompare joinedRows;
          tbody = ''<tbody>'' @ join [] (tbodyRows (renderRows sortedRows)) @ ''</tbody>''
      in ''<table class=\"pivot\">'' @ thead @ tbody @ ''</table>'')"

text \<open>
  The rows of the table body as the specification words them: before a row whose group
  key differs from the previous row's (or that has no previous row) come the two marker
  rows of its group; a row is the first of its record when it has no previous row or the
  previous row is of another group or another record.
\<close>

definition groupChanged :: "joined_row option \<Rightarrow> joined_row \<Rightarrow> bool" where
  "groupChanged prev row = (case prev of None \<Rightarrow> True | Some p \<Rightarrow> rowKey row \<noteq> rowKey p)"

definition firstOfRecord :: "joined_row option \<Rightarrow> joined_row \<Rightarrow> bool" where
  "firstOfRecord prev row =
     (case prev of
        None \<Rightarrow> True
      | Some p \<Rightarrow> rowKey row \<noteq> rowKey p \<or> r_id (row_record row) \<noteq> r_id (row_record p))"

definition emitted :: "joined_row option \<Rightarrow> joined_row \<Rightarrow> string list" where
  "emitted prev row =
     (if groupChanged prev row
      then [groupLabelTr (row_record row) (row_questName row), groupDividerTr]
      else [])
     @ [dataTr (firstOfRecord prev row) row]"

definition previousRows :: "joined_row list \<Rightarrow> joined_row option list" where
  "previousRows rows = None # map Some (butlast rows)"

section \<open>Example data\<close>

definition alan :: item where
  "alan = \<lparr>it_key = ''2'', it_label = ''Alan''\<rparr>"

definition alice :: item where
  "alice = \<lparr>it_key = ''1'', it_label = ''Alice''\<rparr>"

text \<open>
  Three runs: two of the same quest, meta, category and rank with the same time (a
  two-player run and a solo run), and a run of an unknown quest with no participants.
\<close>

definition run1 :: run where
  "run1 = \<lparr>r_id = 1, r_quest_id = 1, r_meta = JStr ''Vanilla'', r_category = JNum 2,
            r_pb = JNum 0, r_time = 454, r_rank = 1\<rparr>"

definition run2 :: run where
  "run2 = \<lparr>r_id = 2, r_quest_id = 1, r_meta = JStr ''Vanilla'', r_category = JNum 2,
            r_pb = JNum 0, r_time = 454, r_rank = 1\<rparr>"

definition run3 :: run where
  "run3 = \<lparr>r_id = 3, r_quest_id = 9, r_meta = JStr ''Vanilla'', r_category = JNum 1,
            r_pb = JNum 1, r_time = - 60, r_rank = 1\<rparr>"

definition pr_a :: player_record where
  "pr_a = \<lparr>pr_id = 1, pr_record_id = 2, pr_player_id = 10, pr_pso_class = JStr ''RAmar'',
            pr_pov = JNull\<rparr>"

definition pr_b :: player_record where
  "pr_b = \<lparr>pr_id = 3, pr_record_id = 1, pr_player_id = 11, pr_pso_class = JStr '' FOnewearl'',
            pr_pov = JStr ''https://example.org/v''\<rparr>"

definition pr_c :: player_record where
  "pr_c = \<lparr>pr_id = 2, pr_record_id = 1, pr_player_id = 10, pr_pso_class = JStr ''HUmar'',
            pr_pov = JNull\<rparr>"

definition example_records :: "run list" where
  "example_records = [run3, run2, run1]"

definition example_player_records :: "player_record list" where
  "example_player_records = [pr_a, pr_b, pr_c]"

definition example_questById :: "int \<rightharpoonup> quest" where
  "example_questById = buildIdMap q_id [\<lparr>q_id = 1, q_name = ''Towards the Future''\<rparr>]"

definition example_playerById :: "int \<rightharpoonup> player" where
  "example_playerById = buildIdMap p_id [\<lparr>p_id = 10, p_name = ''O'Brien <3>''\<rparr>]"

definition example_rows :: "joined_row list" where
  "example_rows = joinRows example_questById example_player_records example_playerById example_records"

definition row_none :: joined_row where
  "row_none = \<lparr>row_record = run3, row_questName = None, row_pr = None,
      row_playerName = ''(none found)'', row_cls = JStr [], row_pov = JStr []\<rparr>"

definition row_a :: joined_row where
  "row_a = \<lparr>row_record = run2, row_questName = Some ''Towards the Future'', row_pr = Some pr_a,
      row_playerName = ''O'Brien <3>'', row_cls = JStr ''RAmar'', row_pov = JStr []\<rparr>"

definition row_b :: joined_row where
  "row_b = \<lparr>row_record = run1, row_questName = Some ''Towards the Future'', row_pr = Some pr_b,
      row_playerName = ''(unknown player 11)'', row_cls = JStr '' FOnewearl'',
      row_pov = JStr ''https://example.org/v''\<rparr>"

definition row_c :: joined_row where
  "row_c = \<lparr>row_record = run1, row_questName = Some ''Towards the Future'', row_pr = Some pr_c,
      row_playerName = ''O'Brien <3>'', row_cls = JStr ''HUmar'', row_pov = JStr []\<rparr>"








definition example_sorted_rows :: "joined_row list" where
  "example_sorted_rows = [row_none, row_c, row_b, row_a]"

section \<open>Facts about escaping\<close>

lemma replaceAll_Nil: "replaceAll c r [] = []"
  by (simp add: replaceAll_def)

lemma replaceAll_Cons:
  "replaceAll c r (x # s) = (if x = c then r else [x]) @ replaceAll c r s"
  by (simp add: replaceAll_def)

lemma replaceAll_append:
  "replaceAll c r (s @ t) = replaceAll c r s @ replaceAll c r t"
  by (simp add: replaceAll_def)

lemma esc_str_Nil: "esc (JStr []) = []"
  by (simp add: esc_def replaceAll_Nil)

lemma esc_str_Cons: "esc (JStr (c # s)) = html_entity c @ esc (JStr s)"
  by (simp add: esc_def html_entity_def replaceAll_Cons replaceAll_append replaceAll_Nil)

lemma esc_str: "esc (JStr s) = concat (map html_entity s)"
  by (induction s) (simp_all add: esc_str_Nil esc_str_Cons)

text \<open>
  Claim C7. For every input string, \<open>esc\<close> replaces each of the five HTML-significant
  characters (\<open>&\<close>, \<open><\<close>, \<open>>\<close>, the double quote and the single quote) with its
  entity and leaves every other character as it is; since \<open>&\<close> is replaced first, the
  result of the five passes is the one-pass, character-by-character replacement (no
  entity is mangled by a later pass). In particular \<open>O'Brien <3>\<close> escapes to
  \<open>O&#39;Brien &lt;3&gt;\<close>.
\<close>

theorem esc_replaces_html_characters:
  "esc (JStr s) = concat (map html_entity s)
   \<and> html_entity CHR ''&'' = ''&amp;''
   \<and> html_entity CHR ''<'' = ''&lt;''
   \<and> html_entity CHR ''>'' = ''&gt;''
   \<and> html_entity (CHR 0x22) = ''&quot;''
   \<and> html_entity (CHR 0x27) = ''&#39;''
   \<and> esc (JStr ''&lt;'') = ''&amp;lt;''
   \<and> esc (JStr ''O'Brien <3>'') = ''O&#39;Brien &lt;3&gt;''"
  by (simp add: esc_str) (simp add: html_entity_def)

section \<open>Facts about time formatting\<close>

lemma nat_to_dec_one_digit: "n < 10 \<Longrightarrow> nat_to_dec n = [digitChar n]"
  by (simp add: nat_to_dec.simps)

lemma nat_to_dec_two_digits:
  "10 \<le> n \<Longrightarrow> n < 100 \<Longrightarrow> nat_to_dec n = [digitChar (n div 10), digitChar (n mod 10)]"
  by (subst nat_to_dec.simps) (simp add: nat_to_dec_one_digit)

lemma padStart_seconds:
  assumes "s < 60"
  shows "padStart 2 CHR ''0'' (nat_to_dec s) = [digitChar (s div 10), digitChar (s mod 10)]"
proof (cases "s < 10")
  case True
  then have "digitChar (s div 10) = CHR ''0''" by (simp add: digitChar_def)
  with True show ?thesis
    by (simp add: padStart_def nat_to_dec_one_digit)
next
  case False
  with assms have "10 \<le> s" "s < 100" by auto
  then show ?thesis
    by (simp add: padStart_def nat_to_dec_two_digits)
qed

lemma numberToString_whole: "numberToString (r * 2 ^ e) e = nat_to_dec r"
  by (simp add: numberToString_def)

lemma formatTime_whole:
  "formatTime (Finite (n * 2 ^ e) e) =
     int_to_dec (\<bar>n\<bar> div 60) @ [CHR 0x27]
       @ [digitChar (nat (\<bar>n\<bar> mod 60) div 10), digitChar (nat (\<bar>n\<bar> mod 60) mod 10)]
       @ (if n < 0 then '' Remaining'' else [])"
proof -
  have pos: "(0::int) < 2 ^ e" by simp
  have a: "\<bar>n * 2 ^ e\<bar> = \<bar>n\<bar> * 2 ^ e" by (simp add: abs_mult)
  have m: "\<bar>n\<bar> * 2 ^ e div (60 * 2 ^ e) = \<bar>n\<bar> div 60"
    using pos by simp
  have s: "\<bar>n\<bar> * 2 ^ e mod (60 * 2 ^ e) = (\<bar>n\<bar> mod 60) * 2 ^ e"
    using pos by (simp add: mult_mod_left)
  have "nat ((\<bar>n\<bar> mod 60) * 2 ^ e) = nat (\<bar>n\<bar> mod 60) * 2 ^ e"
    by (simp add: nat_mult_distrib nat_power_eq)
  then have str: "numberToString (nat ((\<bar>n\<bar> mod 60) * 2 ^ e)) e = nat_to_dec (nat (\<bar>n\<bar> mod 60))"
    by (simp add: numberToString_whole)
  have "nat (\<bar>n\<bar> mod 60) < 60" by simp
  then have ss: "padStart 2 CHR ''0'' (nat_to_dec (nat (\<bar>n\<bar> mod 60))) =
       [digitChar (nat (\<bar>n\<bar> mod 60) div 10), digitChar (nat (\<bar>n\<bar> mod 60) mod 10)]"
    by (rule padStart_seconds)
  have neg: "n * 2 ^ e < 0 \<longleftrightarrow> n < 0"
    using pos by (simp add: mult_less_0_iff)
  show ?thesis
    unfolding formatTime.simps Let_def a m s str ss neg by simp
qed

text \<open>
  Claim C6, as amended. For a whole number of seconds \<open>n\<close> in the range where doubles
  are exact (\<open>\<bar>n\<bar> < 2^53\<close>), \<open>formatTime\<close> renders the minutes of its magnitude, an
  apostrophe and the seconds of its magnitude as exactly two digits (zero padded),
  followed by \<open>" Remaining"\<close> when the value is negative; a non-finite input gives the
  empty string. In particular \<open>formatTime(454) = "7'34"\<close>,
  \<open>formatTime(-60) = "1'00 Remaining"\<close> and \<open>formatTime(NaN) = ""\<close>.
\<close>

theorem formatTime_minutes_seconds:
  assumes "\<bar>n\<bar> < 2 ^ 53"
  shows "formatTime (Finite n 0) =
     int_to_dec (\<bar>n\<bar> div 60) @ [CHR 0x27]
       @ [digitChar (nat (\<bar>n\<bar> mod 60) div 10), digitChar (nat (\<bar>n\<bar> mod 60) mod 10)]
       @ (if n < 0 then '' Remaining'' else [])
   \<and> formatTime (Finite (n * 2 ^ e) e) = formatTime (Finite n 0)
   \<and> formatTime NaN = [] \<and> formatTime PosInfinity = [] \<and> formatTime NegInfinity = []
   \<and> formatTime (Finite 454 0) = ''7'34''
   \<and> formatTime (Finite (- 60) 0) = ''1'00 Remaining''"
proof -
  have whole: "formatTime (Finite n 0) =
     int_to_dec (\<bar>n\<bar> div 60) @ [CHR 0x27]
       @ [digitChar (nat (\<bar>n\<bar> mod 60) div 10), digitChar (nat (\<bar>n\<bar> mod 60) mod 10)]
       @ (if n < 0 then '' Remaining'' else [])"
    using formatTime_whole [of n 0] by simp
  have same: "formatTime (Finite (n * 2 ^ e) e) = formatTime (Finite n 0)"
    unfolding whole by (rule formatTime_whole)
  have a: "formatTime (Finite 454 0) = ''7'34''"
    by code_simp
  have b: "formatTime (Finite (- 60) 0) = ''1'00 Remaining''"
    by code_simp
  from whole same a b show ?thesis by simp
qed

theorem formatTime_minutes_seconds_witness:
  "formatTime (Finite 3599 0) = ''59'59''
   \<and> formatTime (Finite (- 5) 0) = ''0'05 Remaining''
   \<and> formatTime (Finite 908 1) = ''7'34''"
proof -
  have r1: "\<bar>3599::int\<bar> < 2 ^ 53" by simp
  have r2: "\<bar>- 5::int\<bar> < 2 ^ 53" by simp
  have r3: "\<bar>454::int\<bar> < 2 ^ 53" by simp
  have d1: "int_to_dec (\<bar>3599\<bar> div 60) @ [CHR 0x27]
       @ [digitChar (nat (\<bar>3599\<bar> mod 60) div 10), digitChar (nat (\<bar>3599\<bar> mod 60) mod 10)]
       @ (if (3599::int) < 0 then '' Remaining'' else []) = ''59'59''"
    by code_simp
  have d2: "int_to_dec (\<bar>- 5\<bar> div 60) @ [CHR 0x27]
       @ [digitChar (nat (\<bar>- 5\<bar> mod 60) div 10), digitChar (nat (\<bar>- 5\<bar> mod 60) mod 10)]
       @ (if (- 5::int) < 0 then '' Remaining'' else []) = ''0'05 Remaining''"
    by code_simp
  have e: "(454::int) * 2 ^ 1 = 908" by simp
  have w1: "formatTime (Finite 3599 0) = ''59'59''"
    using formatTime_minutes_seconds [OF r1, THEN conjunct1] unfolding d1 .
  have w2: "formatTime (Finite (- 5) 0) = ''0'05 Remaining''"
    using formatTime_minutes_seconds [OF r2, THEN conjunct1] unfolding d2 .
  from formatTime_minutes_seconds [OF r3, of 1]
  have x: "formatTime (Finite (454 * 2 ^ 1) 1) = formatTime (Finite 454 0)"
    and y: "formatTime (Finite 454 0) = ''7'34''"
    by blast+
  from x y have "formatTime (Finite (454 * 2 ^ 1) 1) = ''7'34''" by (rule trans)
  then have w3: "formatTime (Finite 908 1) = ''7'34''" unfolding e .
  from w1 w2 w3 show ?thesis by blast
qed

text \<open>
  The claim as written, for every signed seconds value, fails at 65.5 seconds: the
  seconds are 5.5, whose string has three characters, so \<open>padStart\<close> adds nothing and
  the seconds part is \<open>5.5\<close>, not \<open>05.5\<close>.
\<close>

theorem formatTime_fractional_counterexample:
  "formatTime (Finite 131 1) = ''1'5.5'' \<and> formatTime (Finite 131 1) \<noteq> ''1'05.5''"
  by code_simp

section \<open>Facts about the group key\<close>

text \<open>
  Claim C9. The group key is not injective on its fields: \<open>groupKey\<close> joins the quest
  name, meta, category and PB marker with \<open>"||"\<close> and escapes nothing, so two runs
  whose (quest name, meta, category, PB) tuples differ can have the same key. An
  example: meta \<open>"a||b"\<close> with category \<open>"c"\<close>, and meta \<open>"a"\<close> with category
  \<open>"b||c"\<close>.
\<close>

theorem groupKey_not_injective:
  "(\<exists>r1 q1 r2 q2.
      (q1, r_meta r1, r_category r1, r_pb r1) \<noteq> (q2, r_meta r2, r_category r2, r_pb r2)
      \<and> groupKey r1 q1 = groupKey r2 q2)
   \<and> groupKey \<lparr>r_id = 1, r_quest_id = 1, r_meta = JStr ''a||b'', r_category = JStr ''c'',
         r_pb = JBool True, r_time = 0, r_rank = 1\<rparr> (Some ''Q'')
     = groupKey \<lparr>r_id = 2, r_quest_id = 1, r_meta = JStr ''a'', r_category = JStr ''b||c'',
         r_pb = JBool True, r_time = 0, r_rank = 1\<rparr> (Some ''Q'')"
proof -
  let ?a = "\<lparr>r_id = 1, r_quest_id = 1, r_meta = JStr ''a||b'', r_category = JStr ''c'',
         r_pb = JBool True, r_time = 0, r_rank = 1\<rparr>"
  let ?b = "\<lparr>r_id = 2, r_quest_id = 1, r_meta = JStr ''a'', r_category = JStr ''b||c'',
         r_pb = JBool True, r_time = 0, r_rank = 1\<rparr>"
  have same: "groupKey ?a (Some ''Q'') = groupKey ?b (Some ''Q'')"
    by (simp add: groupKey_def)
  have differ: "(Some ''Q'', r_meta ?a, r_category ?a, r_pb ?a)
      \<noteq> (Some ''Q'', r_meta ?b, r_category ?b, r_pb ?b)"
    by simp
  from same differ show ?thesis by blast
qed

section \<open>Facts about filtering\<close>

lemma allowed_fold:
  "x \<in> fold (\<lambda>pr allowed. if P pr then insert (pr_record_id pr) allowed else allowed) prs A
     \<longleftrightarrow> x \<in> A \<or> (\<exists>pr \<in> set prs. pr_record_id pr = x \<and> P pr)"
  by (induction prs arbitrary: A) auto

lemma allowedByPlayers_iff:
  "r_id r \<in> fold (\<lambda>pr allowed.
                if toStr (JNum (pr_player_id pr)) \<in> selectedPlayerIds
                then insert (pr_record_id pr) allowed else allowed) playerRecords {}
   \<longleftrightarrow> hasSelectedPlayer playerRecords selectedPlayerIds r"
  unfolding allowed_fold hasSelectedPlayer_def by simp

lemma allowedByClasses_iff:
  "r_id r \<in> fold (\<lambda>pr allowed.
                let cls = normalize (pr_pso_class pr)
                in if cls \<in> selectedClasses
                   then insert (pr_record_id pr) allowed else allowed) playerRecords {}
   \<longleftrightarrow> hasSelectedClass playerRecords selectedClasses r"
  unfolding Let_def allowed_fold hasSelectedClass_def by simp

lemma pb_string: "toStr (JNum (numberOfBoolean b)) = (if b then ''1'' else ''0'')"
  by (simp add: numberOfBoolean_def int_to_dec_def nat_to_dec_one_digit digitChar_def)

lemma filterRecords_eq:
  "filterRecords records playerRecords selectedPlayerIds selectedClasses metaVal countVal pbVal
     = filter (passesFilters playerRecords selectedPlayerIds selectedClasses metaVal countVal pbVal)
         records"
proof -
  have "(if metaVal \<noteq> [] \<and> toStr (r_meta r) \<noteq> metaVal then False
           else if countVal \<noteq> [] \<and> toStr (r_category r) \<noteq> countVal then False
           else if pbVal \<noteq> [] \<and> toStr (JNum (numberOfBoolean (truthy (r_pb r)))) \<noteq> pbVal
             then False
           else if (case (if selectedPlayerIds \<noteq> {}
             then Some (fold (\<lambda>pr allowed.
                          if toStr (JNum (pr_player_id pr)) \<in> selectedPlayerIds
                          then insert (pr_record_id pr) allowed else allowed)
                        playerRecords {})
             else None) of None \<Rightarrow> False | Some allowed \<Rightarrow> r_id r \<notin> allowed)
             then False
           else if (case (if selectedClasses \<noteq> {}
             then Some (fold (\<lambda>pr allowed.
                          let cls = normalize (pr_pso_class pr)
                          in if cls \<in> selectedClasses
                             then insert (pr_record_id pr) allowed else allowed)
                        playerRecords {})
             else None) of None \<Rightarrow> False | Some allowed \<Rightarrow> r_id r \<notin> allowed)
             then False
           else True)
     = passesFilters playerRecords selectedPlayerIds selectedClasses metaVal countVal pbVal r" for r
    unfolding passesFilters_def
    by (cases "selectedPlayerIds = {}"; cases "selectedClasses = {}";
        cases "metaVal = []"; cases "countVal = []"; cases "pbVal = []";
        simp only: allowedByPlayers_iff allowedByClasses_iff pb_string option.case if_True if_False
          simp_thms if_bool_eq_conj; blast)
  then show ?thesis
    unfolding filterRecords_def Let_def by simp
qed

text \<open>
  Claim C1. For all records, player-records and filter state, \<open>filterRecords\<close> returns
  exactly the records (in their order) that satisfy all active predicates: the meta,
  category and PB values, when not empty, equal the string form of the record's own
  field; the player selection, when not empty, holds a player of at least one
  player-record of the record; the class selection, when not empty, holds the
  normalised class of at least one player-record of the record (not necessarily the
  same one). An empty value or selection constrains nothing: with all five empty the
  result is the input list.
\<close>

theorem filterRecords_all_active_predicates:
  "filterRecords records playerRecords selectedPlayerIds selectedClasses metaVal countVal pbVal
     = filter (passesFilters playerRecords selectedPlayerIds selectedClasses metaVal countVal pbVal)
         records
   \<and> filterRecords records playerRecords {} {} [] [] [] = records"
  by (simp add: filterRecords_eq) (simp add: passesFilters_def)

text \<open>
  On the example data, player 10 and class \<open>fonewearl\<close> select run 1 only: its two
  participants are player 10 (a HUmar) and player 11 (the FOnewearl), and no single
  participant is both.
\<close>

theorem filterRecords_all_active_predicates_witness:
  "filterRecords example_records example_player_records {''10''} {''fonewearl''} [] [] [] = [run1]
   \<and> filterRecords example_records example_player_records {''10''} {} [] [] [] = [run2, run1]
   \<and> filterRecords example_records example_player_records {} {} [] ''1'' ''1'' = [run3]
   \<and> \<not> (\<exists>pr \<in> set example_player_records.
          toStr (JNum (pr_player_id pr)) \<in> {''10''}
          \<and> normalize (pr_pso_class pr) \<in> {''fonewearl''})"
proof -
  have a: "filter (passesFilters example_player_records {''10''} {''fonewearl''} [] [] [])
             example_records = [run1]"
    by code_simp
  have b: "filter (passesFilters example_player_records {''10''} {} [] [] [])
             example_records = [run2, run1]"
    by code_simp
  have c: "filter (passesFilters example_player_records {} {} [] ''1'' ''1'')
             example_records = [run3]"
    by code_simp
  have d: "\<not> (\<exists>pr \<in> set example_player_records.
          toStr (JNum (pr_player_id pr)) \<in> {''10''}
          \<and> normalize (pr_pso_class pr) \<in> {''fonewearl''})"
    by code_simp
  from a b c d
    filterRecords_all_active_predicates
      [of example_records example_player_records "{''10''}" "{''fonewearl''}" "[]" "[]" "[]"]
    filterRecords_all_active_predicates
      [of example_records example_player_records "{''10''}" "{}" "[]" "[]" "[]"]
    filterRecords_all_active_predicates
      [of example_records example_player_records "{}" "{}" "[]" "''1''" "''1''"]
  show ?thesis by simp
qed

section \<open>Facts about the typeahead\<close>

lemma join_empty_sep: "join [] xs = concat xs"
  by (induction xs rule: induct_list012) simp_all

lemma collectMatches_acc:
  "length acc < 10 \<Longrightarrow>
   collectMatches sel q items acc = take 10 (acc @ filter (suggested sel q) items)"
proof (induction items arbitrary: acc)
  case Nil
  then show ?case by simp
next
  case (Cons it items)
  show ?case
  proof (cases "it_key it \<in> sel")
    case True
    with Cons show ?thesis by (simp add: suggested_def)
  next
    case notSelected: False
    show ?thesis
    proof (cases "sublist q (normalize (JStr (it_label it)))")
      case False
      with notSelected Cons show ?thesis by (simp add: suggested_def)
    next
      case True
      show ?thesis
      proof (cases "length (acc @ [it]) \<ge> 10")
        case full: True
        with Cons.prems have "length acc = 9" by simp
        with notSelected True full show ?thesis by (simp add: suggested_def)
      next
        case False
        then have "length (acc @ [it]) < 10" by simp
        from Cons.IH [OF this] notSelected True False show ?thesis
          by (simp add: suggested_def)
      qed
    qed
  qed
qed

lemma trim_all_space:
  assumes "\<forall>c \<in> set s. isSpace c"
  shows "trim s = []"
proof -
  from assms have d: "dropWhile isSpace s = []" by simp
  show ?thesis unfolding trim_def d by simp
qed

lemma normalize_blank: "\<forall>c \<in> set query. isSpace c \<Longrightarrow> normalize (JStr query) = []"
  by (simp add: normalize_def toLowerCase_def trim_all_space)

text \<open>
  Claim C8. For every item list, selected-key set and query, the suggestion builder
  collects the items whose key is not selected and whose normalised label contains the
  normalised query as a substring, in the order of the item list (the caller passes it
  sorted by label), and stops at 10 matches: the matches are the first 10 such items and
  the returned markup is their suggestion elements, one after the other. An empty or
  white-space-only query gives no suggestions (the empty string). For the items Alan and
  Alice, the query \<open>al\<close> yields both.
\<close>

theorem buildSuggestionList_matches:
  "collectMatches selectedSet (normalize (JStr query)) items []
     = take 10 (filter (suggested selectedSet (normalize (JStr query))) items)
   \<and> buildSuggestionList items selectedSet query
     = (if normalize (JStr query) = [] then []
        else concat (map suggestionHtml
               (take 10 (filter (suggested selectedSet (normalize (JStr query))) items))))
   \<and> length (collectMatches selectedSet (normalize (JStr query)) items []) \<le> 10
   \<and> subseq (collectMatches selectedSet (normalize (JStr query)) items []) items
   \<and> ((\<forall>c \<in> set query. isSpace c) \<longrightarrow> buildSuggestionList items selectedSet query = [])
   \<and> collectMatches {} (normalize (JStr ''al'')) [alan, alice] [] = [alan, alice]"
proof -
  let ?q = "normalize (JStr query)"
  have m: "collectMatches selectedSet ?q items [] = take 10 (filter (suggested selectedSet ?q) items)"
    by (simp add: collectMatches_acc)
  have b: "buildSuggestionList items selectedSet query
     = (if ?q = [] then []
        else concat (map suggestionHtml (take 10 (filter (suggested selectedSet ?q) items))))"
    by (simp add: buildSuggestionList_def Let_def m join_empty_sep)
  have l: "length (collectMatches selectedSet ?q items []) \<le> 10"
    by (simp add: m)
  have "subseq (take 10 (filter (suggested selectedSet ?q) items)) (filter (suggested selectedSet ?q) items)"
    by (metis append_take_drop_id list_emb_prefix subseq_order.order_refl)
  then have s: "subseq (collectMatches selectedSet ?q items []) items"
    unfolding m using subseq_filter_left subseq_order.order_trans by blast
  have w: "(\<forall>c \<in> set query. isSpace c) \<longrightarrow> buildSuggestionList items selectedSet query = []"
    by (simp add: b normalize_blank)
  have e: "collectMatches {} (normalize (JStr ''al'')) [alan, alice] [] = [alan, alice]"
    by code_simp
  from m b l s w e show ?thesis by blast
qed

theorem buildSuggestionList_matches_witness:
  "buildSuggestionList [alan, alice] {} '' '' = []
   \<and> buildSuggestionList [alan, alice] {''2''} ''  AL '' = suggestionHtml alice
   \<and> suggestionHtml alice = ''<div class=\"suggestion\" data-key=\"1\">Alice</div>''"
proof -
  have sp: "\<forall>c \<in> set '' ''. isSpace c" by (simp add: isSpace_def)
  have n: "normalize (JStr ''  AL '') = ''al''" by code_simp
  have f: "filter (suggested {''2''} ''al'') [alan, alice] = [alice]" by code_simp
  have h: "suggestionHtml alice = ''<div class=\"suggestion\" data-key=\"1\">Alice</div>''"
    by code_simp
  from buildSuggestionList_matches [of "{}" "'' ''" "[alan, alice]"] sp
  have "buildSuggestionList [alan, alice] {} '' '' = []" by blast
  moreover from buildSuggestionList_matches [of "{''2''}" "''  AL ''" "[alan, alice]"]
  have "buildSuggestionList [alan, alice] {''2''} ''  AL ''
     = (if normalize (JStr ''  AL '') = [] then []
        else concat (map suggestionHtml
               (take 10 (filter (suggested {''2''} (normalize (JStr ''  AL ''))) [alan, alice]))))"
    by blast
  then have "buildSuggestionList [alan, alice] {''2''} ''  AL '' = suggestionHtml alice"
    unfolding n f by simp
  ultimately show ?thesis using h by simp
qed

section \<open>Facts about the join\<close>

lemma fold_append_acc: "fold (\<lambda>x acc. acc @ f x) xs acc0 = acc0 @ concat (map f xs)"
  by (induction xs arbitrary: acc0) simp_all

lemma joinRows_concat:
  "joinRows questById playerRecords playerById records
     = concat (map (joinRecord questById playerRecords playerById) records)"
  by (simp add: joinRows_def fold_append_acc)

lemma set_insertBy: "set (insertBy cmp x ys) = insert x (set ys)"
  by (induction ys) auto

lemma mset_insertBy: "mset (insertBy cmp x ys) = add_mset x (mset ys)"
  by (induction ys) simp_all

lemma mset_sortBy: "mset (sortBy cmp xs) = mset xs"
  by (induction xs) (simp_all add: sortBy_def mset_insertBy)

lemma set_sortBy: "set (sortBy cmp xs) = set xs"
  by (metis mset_sortBy set_mset_mset)

lemma length_sortBy: "length (sortBy cmp xs) = length xs"
  by (metis mset_sortBy size_mset)

lemma sorted_wrt_insertBy:
  assumes trans: "\<And>x y z. x \<in> S \<Longrightarrow> y \<in> S \<Longrightarrow> z \<in> S \<Longrightarrow> le x y \<Longrightarrow> le y z \<Longrightarrow> le x z"
    and total: "\<And>x y. x \<in> S \<Longrightarrow> y \<in> S \<Longrightarrow> le x y \<or> le y x"
    and agree: "\<And>x y. x \<in> S \<Longrightarrow> y \<in> S \<Longrightarrow> cmp x y \<le> 0 \<longleftrightarrow> le x y"
    and x: "x \<in> S" and ys: "set ys \<subseteq> S" and sorted: "sorted_wrt le ys"
  shows "sorted_wrt le (insertBy cmp x ys)"
  using ys sorted
proof (induction ys)
  case Nil
  then show ?case by simp
next
  case (Cons y ys)
  then have y: "y \<in> S" and sub: "set ys \<subseteq> S" by auto
  show ?case
  proof (cases "cmp x y \<le> 0")
    case True
    with agree [OF x y] have xy: "le x y" by simp
    have "le x z" if "z \<in> set ys" for z
    proof -
      from that Cons.prems have "le y z" by simp
      with xy trans [OF x y] that sub show ?thesis by blast
    qed
    with True xy Cons.prems show ?thesis by simp
  next
    case False
    with agree [OF x y] total [OF x y] have yx: "le y x" by blast
    from Cons.IH [OF sub] Cons.prems have "sorted_wrt le (insertBy cmp x ys)" by simp
    with False yx Cons.prems show ?thesis by (simp add: set_insertBy)
  qed
qed

lemma sorted_wrt_sortBy:
  assumes trans: "\<And>x y z. x \<in> S \<Longrightarrow> y \<in> S \<Longrightarrow> z \<in> S \<Longrightarrow> le x y \<Longrightarrow> le y z \<Longrightarrow> le x z"
    and total: "\<And>x y. x \<in> S \<Longrightarrow> y \<in> S \<Longrightarrow> le x y \<or> le y x"
    and agree: "\<And>x y. x \<in> S \<Longrightarrow> y \<in> S \<Longrightarrow> cmp x y \<le> 0 \<longleftrightarrow> le x y"
    and xs: "set xs \<subseteq> S"
  shows "sorted_wrt le (sortBy cmp xs)"
  using xs
proof (induction xs)
  case Nil
  then show ?case by (simp add: sortBy_def)
next
  case (Cons x xs)
  then have x: "x \<in> S" and sub: "set xs \<subseteq> S" by auto
  have rest: "set (sortBy cmp xs) \<subseteq> S" using sub by (simp add: set_sortBy)
  have "sorted_wrt le (insertBy cmp x (sortBy cmp xs))"
    by (rule sorted_wrt_insertBy [where S = S, OF trans total agree x rest Cons.IH [OF sub]])
  then show ?case by (simp add: sortBy_def)
qed

lemma sorted_prsForRecord: "sorted (map pr_id (prsForRecord playerRecords record))"
proof -
  have "sorted_wrt (\<lambda>a b. pr_id a \<le> pr_id b)
          (sortBy (\<lambda>a b. pr_id a - pr_id b)
             (filter (\<lambda>pr. pr_record_id pr = r_id record) playerRecords))"
    by (rule sorted_wrt_sortBy [where S = UNIV]) auto
  then show ?thesis by (simp add: prsForRecord_def sorted_map)
qed

lemma mset_prsForRecord:
  "mset (prsForRecord playerRecords record)
     = mset (filter (\<lambda>pr. pr_record_id pr = r_id record) playerRecords)"
  by (simp add: prsForRecord_def mset_sortBy)

lemma length_prsForRecord:
  "length (prsForRecord playerRecords record)
     = length (filter (\<lambda>pr. pr_record_id pr = r_id record) playerRecords)"
  by (simp add: prsForRecord_def length_sortBy)

lemma joinRecord_record:
  "row \<in> set (joinRecord questById playerRecords playerById record) \<Longrightarrow> row_record row = record"
  by (auto simp: joinRecord_def Let_def participantRow_def split: if_splits)

lemma filter_concat_own:
  assumes own: "\<And>r x. x \<in> set (f r) \<Longrightarrow> key x = r"
    and "R \<in> set rs" "distinct rs"
  shows "filter (\<lambda>x. key x = R) (concat (map f rs)) = f R"
  using assms(2,3)
proof (induction rs)
  case Nil
  then show ?case by simp
next
  case (Cons r rs)
  have keep: "filter (\<lambda>x. key x = R) (f R) = f R"
    using own by (simp add: filter_id_conv)
  have drop: "filter (\<lambda>x. key x = R) (f r') = []" if "r' \<noteq> R" for r'
    using own that by (auto simp: filter_empty_conv)
  show ?case
  proof (cases "r = R")
    case True
    with Cons.prems have "R \<notin> set rs" by simp
    then have "filter (\<lambda>x. key x = R) (concat (map f rs)) = []"
      using own by (auto simp: filter_empty_conv)
    with True keep show ?thesis by simp
  next
    case False
    with Cons have "filter (\<lambda>x. key x = R) (concat (map f rs)) = f R" by simp
    with False drop show ?thesis by simp
  qed
qed

lemma rows_of_record:
  assumes "R \<in> set records" "distinct records"
  shows "filter (\<lambda>row. row_record row = R) (joinRows questById playerRecords playerById records)
           = joinRecord questById playerRecords playerById R"
  unfolding joinRows_concat
  by (rule filter_concat_own [OF joinRecord_record assms])


lemma consistentCompare_codeUnitCompare: "consistentCompare codeUnitCompare"
  unfolding consistentCompare_def codeUnitCompare_def by auto





lemma joinRows_at:
  "joinRows questById playerRecords playerById (before @ R # after)
     = joinRows questById playerRecords playerById before
       @ joinRecord questById playerRecords playerById R
       @ joinRows questById playerRecords playerById after"
  by (simp add: joinRows_concat)

text \<open>
  Claim C3. For every record \<open>R\<close> that no player-record refers to by \<open>record_id\<close>,
  the join produces, at \<open>R\<close>'s place in the record list, exactly one row for \<open>R\<close>: it
  carries \<open>R\<close> and its quest name, has no player-record, the participant name
  \<open>"(none found)"\<close>, and the empty string as class and as POV. When the records of the
  list are distinct, this is the only row of the join that carries \<open>R\<close>.
\<close>

theorem join_record_without_participants:
  assumes "filter (\<lambda>pr. pr_record_id pr = r_id R) playerRecords = []"
  shows "joinRows questById playerRecords playerById (before @ R # after)
           = joinRows questById playerRecords playerById before
             @ [\<lparr>row_record = R,
                 row_questName = map_option q_name (questById (r_quest_id R)),
                 row_pr = None,
                 row_playerName = ''(none found)'',
                 row_cls = JStr [],
                 row_pov = JStr []\<rparr>]
             @ joinRows questById playerRecords playerById after
    \<and> (distinct (before @ R # after) \<longrightarrow>
         filter (\<lambda>row. row_record row = R)
           (joinRows questById playerRecords playerById (before @ R # after))
           = [\<lparr>row_record = R,
                row_questName = map_option q_name (questById (r_quest_id R)),
                row_pr = None,
                row_playerName = ''(none found)'',
                row_cls = JStr [],
                row_pov = JStr []\<rparr>])"
proof -
  from assms have "length (prsForRecord playerRecords R) = 0"
    by (simp add: length_prsForRecord)
  then have one: "joinRecord questById playerRecords playerById R
               = [\<lparr>row_record = R,
                row_questName = map_option q_name (questById (r_quest_id R)),
                row_pr = None,
                row_playerName = ''(none found)'',
                row_cls = JStr [],
                row_pov = JStr []\<rparr>]"
    by (simp add: joinRecord_def Let_def)
  have "filter (\<lambda>row. row_record row = R)
          (joinRows questById playerRecords playerById (before @ R # after))
        = joinRecord questById playerRecords playerById R"
    if "distinct (before @ R # after)"
    by (rule rows_of_record [OF _ that]) simp
  with one joinRows_at [of questById playerRecords playerById before R after]
  show ?thesis by simp
qed

theorem join_record_without_participants_witness:
  "example_rows
     = joinRows example_questById example_player_records example_playerById []
       @ [row_none]
       @ joinRows example_questById example_player_records example_playerById [run2, run1]
   \<and> filter (\<lambda>row. row_record row = run3) example_rows = [row_none]
   \<and> row_playerName row_none = ''(none found)''
   \<and> row_cls row_none = JStr [] \<and> row_pov row_none = JStr []"
proof -
  have d: "distinct ([] @ run3 # [run2, run1])" by code_simp
  have n: "filter (\<lambda>pr. pr_record_id pr = r_id run3) example_player_records = []" by code_simp
  have q: "map_option q_name (example_questById (r_quest_id run3)) = None" by code_simp
  have rn: "\<lparr>row_record = run3,
             row_questName = map_option q_name (example_questById (r_quest_id run3)),
             row_pr = None, row_playerName = ''(none found)'',
             row_cls = JStr [], row_pov = JStr []\<rparr> = row_none"
    by (simp add: row_none_def q)
  have ex: "joinRows example_questById example_player_records example_playerById
              ([] @ run3 # [run2, run1]) = example_rows"
    by (simp add: example_rows_def example_records_def)
  from join_record_without_participants
         [OF n, of example_questById example_playerById "[]" "[run2, run1]"] d
  have "example_rows
     = joinRows example_questById example_player_records example_playerById []
       @ [row_none]
       @ joinRows example_questById example_player_records example_playerById [run2, run1]
   \<and> filter (\<lambda>row. row_record row = run3) example_rows = [row_none]"
    unfolding rn ex by blast
  moreover have "row_playerName row_none = ''(none found)''
      \<and> row_cls row_none = JStr [] \<and> row_pov row_none = JStr []"
    by (simp add: row_none_def)
  ultimately show ?thesis by blast
qed

text \<open>
  Claim C4. For every record \<open>R\<close> with \<open>N \<ge> 1\<close> player-records whose \<open>record_id\<close>
  equals \<open>R\<close>'s id, the join produces, at \<open>R\<close>'s place in the record list, exactly
  \<open>N\<close> rows, one per such player-record; each carries \<open>R\<close> itself (so all its
  record-level fields) and \<open>R\<close>'s quest name; the player-records of the rows are those
  found by equality on \<open>record_id\<close>, in ascending order of their ids. When the records
  of the list are distinct, these are the only rows of the join that carry \<open>R\<close>.
\<close>

theorem join_record_with_participants:
  assumes "N = length (filter (\<lambda>pr. pr_record_id pr = r_id R) playerRecords)" and "1 \<le> N"
  shows "joinRows questById playerRecords playerById (before @ R # after)
           = joinRows questById playerRecords playerById before
             @ map (participantRow playerById R (map_option q_name (questById (r_quest_id R))))
                 (prsForRecord playerRecords R)
             @ joinRows questById playerRecords playerById after
    \<and> length (prsForRecord playerRecords R) = N
    \<and> mset (prsForRecord playerRecords R)
        = mset (filter (\<lambda>pr. pr_record_id pr = r_id R) playerRecords)
    \<and> sorted (map pr_id (prsForRecord playerRecords R))
    \<and> list_all (\<lambda>row. row_record row = R
                  \<and> row_questName row = map_option q_name (questById (r_quest_id R)))
        (map (participantRow playerById R (map_option q_name (questById (r_quest_id R))))
           (prsForRecord playerRecords R))
    \<and> map row_pr
        (map (participantRow playerById R (map_option q_name (questById (r_quest_id R))))
           (prsForRecord playerRecords R))
        = map Some (prsForRecord playerRecords R)
    \<and> (distinct (before @ R # after) \<longrightarrow>
         filter (\<lambda>row. row_record row = R)
           (joinRows questById playerRecords playerById (before @ R # after))
           = map (participantRow playerById R (map_option q_name (questById (r_quest_id R))))
               (prsForRecord playerRecords R))"
proof -
  let ?qn = "map_option q_name (questById (r_quest_id R))"
  let ?block = "map (participantRow playerById R ?qn) (prsForRecord playerRecords R)"
  from assms(1) have len: "length (prsForRecord playerRecords R) = N"
    by (simp add: length_prsForRecord)
  from assms(2) len have "prsForRecord playerRecords R \<noteq> []" by auto
  then have block: "joinRecord questById playerRecords playerById R = ?block"
    by (simp add: joinRecord_def Let_def)
  have at: "joinRows questById playerRecords playerById (before @ R # after)
           = joinRows questById playerRecords playerById before @ ?block
             @ joinRows questById playerRecords playerById after"
    using joinRows_at [of questById playerRecords playerById before R after] block by simp
  have d: "list_all (\<lambda>row. row_record row = R \<and> row_questName row = ?qn) ?block"
    by (simp add: list_all_iff participantRow_def)
  have e: "map row_pr ?block = map Some (prsForRecord playerRecords R)"
    by (simp add: participantRow_def)
  have f: "filter (\<lambda>row. row_record row = R)
          (joinRows questById playerRecords playerById (before @ R # after)) = ?block"
    if "distinct (before @ R # after)"
    using rows_of_record [OF _ that, of R questById playerRecords playerById] block by simp
  from at len mset_prsForRecord [of playerRecords R] sorted_prsForRecord [of playerRecords R]
    d e f
  show ?thesis by blast
qed

theorem join_record_with_participants_witness:
  "example_rows
     = joinRows example_questById example_player_records example_playerById [run3, run2]
       @ [row_c, row_b]
       @ joinRows example_questById example_player_records example_playerById []
   \<and> filter (\<lambda>row. row_record row = run1) example_rows = [row_c, row_b]
   \<and> map pr_id (prsForRecord example_player_records run1) = [2, 3]
   \<and> length (filter (\<lambda>pr. pr_record_id pr = r_id run1) example_player_records) = 2"
proof -
  have d: "distinct ([run3, run2] @ run1 # [])" by code_simp
  have n: "2 = length (filter (\<lambda>pr. pr_record_id pr = r_id run1) example_player_records)"
    by code_simp
  have one: "(1::nat) \<le> 2" by simp
  have rows: "map (participantRow example_playerById run1
                    (map_option q_name (example_questById (r_quest_id run1))))
                (prsForRecord example_player_records run1) = [row_c, row_b]"
    by code_simp
  have ids: "map pr_id (prsForRecord example_player_records run1) = [2, 3]" by code_simp
  have ex: "joinRows example_questById example_player_records example_playerById
              ([run3, run2] @ run1 # []) = example_rows"
    by (simp add: example_rows_def example_records_def)
  from join_record_with_participants
         [OF n one, of example_questById example_playerById "[run3, run2]" "[]"] d
  have "example_rows
     = joinRows example_questById example_player_records example_playerById [run3, run2]
       @ [row_c, row_b]
       @ joinRows example_questById example_player_records example_playerById []
   \<and> filter (\<lambda>row. row_record row = run1) example_rows = [row_c, row_b]"
    unfolding rows ex by blast
  with ids n show ?thesis by simp
qed


section \<open>Facts about the sort\<close>

lemma lc_refl: "consistentCompare lc \<Longrightarrow> lc a a = 0"
  unfolding consistentCompare_def by blast

lemma lc_flip: "consistentCompare lc \<Longrightarrow> lc a b < 0 \<longleftrightarrow> 0 < lc b a"
  unfolding consistentCompare_def by blast




lemma lc_less_irrefl: "consistentCompare lc \<Longrightarrow> \<not> lc a a < 0"
  by (simp add: lc_refl)

lemma lc_less_asym: "consistentCompare lc \<Longrightarrow> lc a b < 0 \<Longrightarrow> \<not> lc b a < 0"
  using lc_flip [of lc a b] by simp


lemma rowBefore_alt:
  "rowBefore lc a b \<longleftrightarrow> lc (rowKey a) (rowKey b) < 0 \<or> (rowKey a = rowKey b \<and> withinGroup lc a b)"
  unfolding rowBefore_def withinGroup_def by (rule refl)







lemma rowBefore_between:
  assumes lc: "consistentCompare lc"
    and ab: "rowBefore lc a b" and bc: "rowBefore lc b c"
    and key: "rowKey a = rowKey c"
    and rt: "r_rank (row_record a) = r_rank (row_record c)"
            "r_time (row_record a) = r_time (row_record c)"
    and id: "r_id (row_record a) = r_id (row_record c)"
  shows "rowKey b = rowKey a \<and> r_id (row_record b) = r_id (row_record a)"
proof -
  have kb: "rowKey a = rowKey b"
  proof (rule ccontr)
    assume ne: "rowKey a \<noteq> rowKey b"
    with ab have 1: "lc (rowKey a) (rowKey b) < 0" unfolding rowBefore_alt by simp
    from ne key bc have "lc (rowKey b) (rowKey a) < 0" unfolding rowBefore_alt by auto
    with 1 lc_less_asym [OF lc] show False by blast
  qed
  with ab lc_less_irrefl [OF lc] have 1: "withinGroup lc a b" unfolding rowBefore_alt by auto
  from kb key bc lc_less_irrefl [OF lc] have 2: "withinGroup lc b c" unfolding rowBefore_alt by auto
  from 1 2 rt id have "r_id (row_record b) = r_id (row_record a)"
    unfolding withinGroup_def by linarith
  with kb show ?thesis by simp
qed

lemma rowBefore_group_between:
  assumes lc: "consistentCompare lc"
    and ab: "rowBefore lc a b" and bc: "rowBefore lc b c"
    and key: "rowKey a = rowKey c"
  shows "rowKey b = rowKey a"
proof (rule ccontr)
  assume ne: "rowKey b \<noteq> rowKey a"
  with ab have 1: "lc (rowKey a) (rowKey b) < 0" unfolding rowBefore_alt by auto
  from ne key bc have "lc (rowKey b) (rowKey a) < 0" unfolding rowBefore_alt by auto
  with 1 lc_less_asym [OF lc] show False by blast
qed





section \<open>Facts about rendering\<close>

lemma renderRow_state:
  "lastGroup (renderRow row st) = Some (rowKey row)
   \<and> lastRecordIdWithinGroup (renderRow row st) = Some (r_id (row_record row))"
  by (simp add: renderRow_def Let_def rowKey_def)

lemma renderRow_rows_first:
  "tbodyRows (renderRow row \<lparr>lastGroup = None, lastRecordIdWithinGroup = None, tbodyRows = acc\<rparr>)
     = acc @ emitted None row"
  by (simp add: renderRow_def Let_def emitted_def groupChanged_def firstOfRecord_def)

lemma renderRow_rows_next:
  "tbodyRows (renderRow row \<lparr>lastGroup = Some (rowKey p),
                             lastRecordIdWithinGroup = Some (r_id (row_record p)),
                             tbodyRows = acc\<rparr>)
     = acc @ emitted (Some p) row"
  by (auto simp: renderRow_def Let_def emitted_def groupChanged_def firstOfRecord_def rowKey_def)

lemma renderRow_next_state:
  "renderRow row \<lparr>lastGroup = g, lastRecordIdWithinGroup = l, tbodyRows = acc\<rparr>
     = \<lparr>lastGroup = Some (rowKey row), lastRecordIdWithinGroup = Some (r_id (row_record row)),
        tbodyRows = tbodyRows (renderRow row \<lparr>lastGroup = g, lastRecordIdWithinGroup = l,
                                              tbodyRows = acc\<rparr>)\<rparr>"
  by (simp add: renderRow_def Let_def rowKey_def)

lemma fold_renderRow_next:
  "tbodyRows (fold renderRow rows \<lparr>lastGroup = Some (rowKey p),
                             lastRecordIdWithinGroup = Some (r_id (row_record p)),
                             tbodyRows = acc\<rparr>)
     = acc @ concat (map2 emitted (map Some (p # butlast rows)) rows)"
proof (induction rows arbitrary: p acc)
  case Nil
  then show ?case by simp
next
  case (Cons row rows)
  show ?case
    by (subst fold_simps, subst renderRow_next_state)
       (simp add: Cons.IH renderRow_rows_next)
qed

lemma renderRows_emitted:
  "tbodyRows (renderRows rows) = concat (map2 emitted (previousRows rows) rows)"
proof (cases rows)
  case Nil
  then show ?thesis by (simp add: renderRows_def previousRows_def)
next
  case (Cons row rest)
  show ?thesis
    unfolding Cons renderRows_def previousRows_def
    by (subst fold_simps, subst renderRow_next_state)
       (simp add: fold_renderRow_next renderRow_rows_first)
qed


lemma previousRows_nth:
  assumes "i < length rows"
  shows "previousRows rows ! i = (if i = 0 then None else Some (rows ! (i - 1)))"
proof (cases i)
  case 0
  then show ?thesis by (simp add: previousRows_def)
next
  case (Suc k)
  with assms have "k < length (butlast rows)" by simp
  then have "map Some (butlast rows) ! k = Some (rows ! k)"
    by (simp add: nth_butlast)
  with Suc show ?thesis by (simp add: previousRows_def)
qed

lemma firstOfRecord_first_occurrence:
  assumes lc: "consistentCompare lc" and u: "uniqueRecordIds rows"
    and sorted: "sorted_wrt (rowBefore lc) rows" and i: "i < length rows"
  shows "firstOfRecord (previousRows rows ! i) (rows ! i)
     \<longleftrightarrow> \<not> (\<exists>j<i. rowKey (rows ! j) = rowKey (rows ! i)
                 \<and> r_id (row_record (rows ! j)) = r_id (row_record (rows ! i)))"
proof (cases i)
  case 0
  with i show ?thesis by (simp add: previousRows_nth firstOfRecord_def)
next
  case (Suc k)
  with i have prev: "previousRows rows ! i = Some (rows ! k)" by (simp add: previousRows_nth)
  show ?thesis
  proof
    assume first: "firstOfRecord (previousRows rows ! i) (rows ! i)"
    show "\<not> (\<exists>j<i. rowKey (rows ! j) = rowKey (rows ! i)
                 \<and> r_id (row_record (rows ! j)) = r_id (row_record (rows ! i)))"
    proof
      assume "\<exists>j<i. rowKey (rows ! j) = rowKey (rows ! i)
                 \<and> r_id (row_record (rows ! j)) = r_id (row_record (rows ! i))"
      then obtain j where j: "j < i" "rowKey (rows ! j) = rowKey (rows ! i)"
        "r_id (row_record (rows ! j)) = r_id (row_record (rows ! i))" by blast
      have same: "rowKey (rows ! k) = rowKey (rows ! j)
                  \<and> r_id (row_record (rows ! k)) = r_id (row_record (rows ! j))"
      proof (cases "j = k")
        case True
        then show ?thesis by simp
      next
        case False
        with j(1) Suc have jk: "j < k" by simp
        from jk Suc i have b1: "rowBefore lc (rows ! j) (rows ! k)"
          using sorted by (simp add: sorted_wrt_nth_less)
        from Suc i have b2: "rowBefore lc (rows ! k) (rows ! i)"
          using sorted by (simp add: sorted_wrt_nth_less)
        from j(1) i have "rows ! j \<in> set rows" "rows ! i \<in> set rows" by simp_all
        with u j(3) have rt: "r_rank (row_record (rows ! j)) = r_rank (row_record (rows ! i))"
          "r_time (row_record (rows ! j)) = r_time (row_record (rows ! i))"
          unfolding uniqueRecordIds_def by blast+
        from rowBefore_between [OF lc b1 b2 j(2) rt j(3)] show ?thesis .
      qed
      with j first prev show False by (simp add: firstOfRecord_def)
    qed
  next
    assume none: "\<not> (\<exists>j<i. rowKey (rows ! j) = rowKey (rows ! i)
                 \<and> r_id (row_record (rows ! j)) = r_id (row_record (rows ! i)))"
    from Suc have "k < i" by simp
    with none have "rowKey (rows ! k) \<noteq> rowKey (rows ! i)
        \<or> r_id (row_record (rows ! k)) \<noteq> r_id (row_record (rows ! i))" by blast
    with prev show "firstOfRecord (previousRows rows ! i) (rows ! i)"
      by (auto simp: firstOfRecord_def)
  qed
qed

lemma groupChanged_first_occurrence:
  assumes lc: "consistentCompare lc"
    and sorted: "sorted_wrt (rowBefore lc) rows" and i: "i < length rows"
  shows "groupChanged (previousRows rows ! i) (rows ! i)
     \<longleftrightarrow> \<not> (\<exists>j<i. rowKey (rows ! j) = rowKey (rows ! i))"
proof (cases i)
  case 0
  with i show ?thesis by (simp add: previousRows_nth groupChanged_def)
next
  case (Suc k)
  with i have prev: "previousRows rows ! i = Some (rows ! k)" by (simp add: previousRows_nth)
  show ?thesis
  proof
    assume changed: "groupChanged (previousRows rows ! i) (rows ! i)"
    show "\<not> (\<exists>j<i. rowKey (rows ! j) = rowKey (rows ! i))"
    proof
      assume "\<exists>j<i. rowKey (rows ! j) = rowKey (rows ! i)"
      then obtain j where j: "j < i" "rowKey (rows ! j) = rowKey (rows ! i)" by blast
      have same: "rowKey (rows ! k) = rowKey (rows ! j)"
      proof (cases "j = k")
        case True
        then show ?thesis by simp
      next
        case False
        with j(1) Suc have jk: "j < k" by simp
        from jk Suc i have b1: "rowBefore lc (rows ! j) (rows ! k)"
          using sorted by (simp add: sorted_wrt_nth_less)
        from Suc i have b2: "rowBefore lc (rows ! k) (rows ! i)"
          using sorted by (simp add: sorted_wrt_nth_less)
        from rowBefore_group_between [OF lc b1 b2 j(2)] show ?thesis .
      qed
      with j changed prev show False by (simp add: groupChanged_def)
    qed
  next
    assume none: "\<not> (\<exists>j<i. rowKey (rows ! j) = rowKey (rows ! i))"
    from Suc have "k < i" by simp
    with none have "rowKey (rows ! k) \<noteq> rowKey (rows ! i)" by blast
    with prev show "groupChanged (previousRows rows ! i) (rows ! i)"
      by (auto simp: groupChanged_def)
  qed
qed

lemma dataRow_not_first:
  "map (getProp (dataRow False row)) [''Quest'', ''Meta'', ''Category'', ''PB'', ''Time'', ''Rank'']
     = replicate 6 (JStr [])"
  by (simp add: dataRow_def getProp_def Let_def numeral_eq_Suc)

lemma dataRow_first:
  "map (getProp (dataRow True row)) [''Quest'', ''Meta'', ''Category'', ''PB'', ''Time'', ''Rank'']
     = [JStr (case row_questName row of None \<Rightarrow> ''(unknown quest)'' | Some q \<Rightarrow> q),
        r_meta (row_record row),
        r_category (row_record row),
        JStr (if truthy (r_pb (row_record row)) then ''PB'' else ''No-PB''),
        JStr (formatTime (Finite (r_time (row_record row)) 0)),
        JNum (r_rank (row_record row))]"
  by (simp add: dataRow_def getProp_def Let_def)

lemma dataTr_not_first:
  "prefix ''<tr><td></td><td></td><td></td><td></td><td></td><td></td>'' (dataTr False row)"
  by (simp add: dataTr_def dataRow_def getProp_def Let_def headers_def esc_str_Nil)

text \<open>
  Claim C5. The render loop pushes, for each row in turn, the two marker rows of the
  group (label and divider) exactly when the row's group key differs from the previous
  row's (the first row has no previous row), and then the row itself, whose record-level
  columns (Quest, Meta, Category, PB, Time, Rank) are populated when it is the first row
  of its record (no previous row, or the previous row is of another group or record) and
  are empty strings otherwise. For a sorted sequence of joined rows with unique record
  ids, the markers stand exactly at the first row of each group key, and a row is
  populated exactly when no earlier row has its group key and record id: only the first
  row of each distinct record within a group.
\<close>

theorem render_markers_and_record_columns:
  "tbodyRows (renderRows rows) = concat (map2 emitted (previousRows rows) rows)
   \<and> map (getProp (dataRow False row)) [''Quest'', ''Meta'', ''Category'', ''PB'', ''Time'', ''Rank'']
       = replicate 6 (JStr [])
   \<and> prefix ''<tr><td></td><td></td><td></td><td></td><td></td><td></td>'' (dataTr False row)
   \<and> map (getProp (dataRow True row)) [''Quest'', ''Meta'', ''Category'', ''PB'', ''Time'', ''Rank'']
       = [JStr (case row_questName row of None \<Rightarrow> ''(unknown quest)'' | Some q \<Rightarrow> q),
          r_meta (row_record row),
          r_category (row_record row),
          JStr (if truthy (r_pb (row_record row)) then ''PB'' else ''No-PB''),
          JStr (formatTime (Finite (r_time (row_record row)) 0)),
          JNum (r_rank (row_record row))]
   \<and> (consistentCompare lc \<and> uniqueRecordIds rows \<and> sorted_wrt (rowBefore lc) rows \<longrightarrow>
        (\<forall>i<length rows.
           (groupChanged (previousRows rows ! i) (rows ! i)
              \<longleftrightarrow> \<not> (\<exists>j<i. rowKey (rows ! j) = rowKey (rows ! i)))
           \<and> (firstOfRecord (previousRows rows ! i) (rows ! i)
              \<longleftrightarrow> \<not> (\<exists>j<i. rowKey (rows ! j) = rowKey (rows ! i)
                         \<and> r_id (row_record (rows ! j)) = r_id (row_record (rows ! i))))))"
proof -
  have sorted_case: "\<forall>i<length rows.
           (groupChanged (previousRows rows ! i) (rows ! i)
              \<longleftrightarrow> \<not> (\<exists>j<i. rowKey (rows ! j) = rowKey (rows ! i)))
           \<and> (firstOfRecord (previousRows rows ! i) (rows ! i)
              \<longleftrightarrow> \<not> (\<exists>j<i. rowKey (rows ! j) = rowKey (rows ! i)
                         \<and> r_id (row_record (rows ! j)) = r_id (row_record (rows ! i))))"
    if "consistentCompare lc" "uniqueRecordIds rows" "sorted_wrt (rowBefore lc) rows"
    using groupChanged_first_occurrence [OF that(1,3)]
      firstOfRecord_first_occurrence [OF that] by blast
  from renderRows_emitted [of rows] dataRow_not_first [of row] dataTr_not_first [of row]
    dataRow_first [of row] sorted_case
  show ?thesis by blast
qed

theorem render_markers_and_record_columns_witness:
  "tbodyRows (renderRows example_sorted_rows)
     = [groupLabelTr run3 None, groupDividerTr, dataTr True row_none,
        groupLabelTr run1 (Some ''Towards the Future''), groupDividerTr, dataTr True row_c,
        dataTr False row_b,
        dataTr True row_a]
   \<and> dataTr True row_c
     = ''<tr><td>Towards the Future</td><td>Vanilla</td><td>2</td><td>No-PB</td><td>7&#39;34</td><td>1</td><td>O&#39;Brien &lt;3&gt;</td><td>HUmar</td><td></td></tr>''
   \<and> dataTr False row_b
     = ''<tr><td></td><td></td><td></td><td></td><td></td><td></td><td>(unknown player 11)</td><td> FOnewearl</td><td><a href=\"https://example.org/v\" target=\"_blank\" rel=\"noopener noreferrer\">https://example.org/v</a></td></tr>''
   \<and> \<not> groupChanged (previousRows example_sorted_rows ! 3) (example_sorted_rows ! 3)
   \<and> firstOfRecord (previousRows example_sorted_rows ! 3) (example_sorted_rows ! 3)
   \<and> \<not> firstOfRecord (previousRows example_sorted_rows ! 2) (example_sorted_rows ! 2)"
proof -
  note main = render_markers_and_record_columns [of example_sorted_rows row_b codeUnitCompare]
  have u: "uniqueRecordIds example_sorted_rows"
    unfolding example_sorted_rows_def by code_simp
  have s: "sorted_wrt (rowBefore codeUnitCompare) example_sorted_rows"
    unfolding example_sorted_rows_def by code_simp
  have len: "length example_sorted_rows = 4" by (simp add: example_sorted_rows_def)
  from main consistentCompare_codeUnitCompare u s len
  have at: "(groupChanged (previousRows example_sorted_rows ! i) (example_sorted_rows ! i)
              \<longleftrightarrow> \<not> (\<exists>j<i. rowKey (example_sorted_rows ! j) = rowKey (example_sorted_rows ! i)))
           \<and> (firstOfRecord (previousRows example_sorted_rows ! i) (example_sorted_rows ! i)
              \<longleftrightarrow> \<not> (\<exists>j<i. rowKey (example_sorted_rows ! j) = rowKey (example_sorted_rows ! i)
                         \<and> r_id (row_record (example_sorted_rows ! j))
                             = r_id (row_record (example_sorted_rows ! i))))" if "i < 4" for i
    using that by simp
  have k12: "rowKey (example_sorted_rows ! 1) = rowKey (example_sorted_rows ! 2)
      \<and> r_id (row_record (example_sorted_rows ! 1)) = r_id (row_record (example_sorted_rows ! 2))"
    unfolding example_sorted_rows_def by code_simp
  have k23: "rowKey (example_sorted_rows ! 2) = rowKey (example_sorted_rows ! 3)"
    unfolding example_sorted_rows_def by code_simp
  have id3: "\<forall>j<3. r_id (row_record (example_sorted_rows ! j))
                 \<noteq> r_id (row_record (example_sorted_rows ! 3))"
    unfolding example_sorted_rows_def by code_simp
  have a: "\<not> groupChanged (previousRows example_sorted_rows ! 3) (example_sorted_rows ! 3)"
    using at [of 3] k23 by auto
  have b: "firstOfRecord (previousRows example_sorted_rows ! 3) (example_sorted_rows ! 3)"
    using at [of 3] id3 by auto
  have c: "\<not> firstOfRecord (previousRows example_sorted_rows ! 2) (example_sorted_rows ! 2)"
    using at [of 2] k12 by auto
  have body: "concat (map2 emitted (previousRows example_sorted_rows) example_sorted_rows)
     = [groupLabelTr run3 None, groupDividerTr, dataTr True row_none,
        groupLabelTr run1 (Some ''Towards the Future''), groupDividerTr, dataTr True row_c,
        dataTr False row_b,
        dataTr True row_a]"
    unfolding example_sorted_rows_def by code_simp
  have d: "dataTr True row_c
     = ''<tr><td>Towards the Future</td><td>Vanilla</td><td>2</td><td>No-PB</td><td>7&#39;34</td><td>1</td><td>O&#39;Brien &lt;3&gt;</td><td>HUmar</td><td></td></tr>''"
    by code_simp
  have e: "dataTr False row_b
     = ''<tr><td></td><td></td><td></td><td></td><td></td><td></td><td>(unknown player 11)</td><td> FOnewearl</td><td><a href=\"https://example.org/v\" target=\"_blank\" rel=\"noopener noreferrer\">https://example.org/v</a></td></tr>''"
    by code_simp
  from main body have rows: "tbodyRows (renderRows example_sorted_rows)
     = [groupLabelTr run3 None, groupDividerTr, dataTr True row_none,
        groupLabelTr run1 (Some ''Towards the Future''), groupDividerTr, dataTr True row_c,
        dataTr False row_b,
        dataTr True row_a]"
    by simp
  from rows d e a b c show ?thesis by blast
qed


section \<open>Facts about the row limit\<close>

lemma selected_zero: "selected records (Some 0) = records"
  by (simp add: selected_def)

lemma selected_positive: "1 \<le> n \<Longrightarrow> selected records (Some n) = take (nat n) records"
  by (simp add: selected_def slice0_def)

lemma joinRecord_not_empty: "joinRecord questById playerRecords playerById r \<noteq> []"
  by (simp add: joinRecord_def Let_def)

lemma records_of_joinRecord:
  "row_record ` set (joinRecord questById playerRecords playerById r) = {r}"
proof -
  obtain row where "row \<in> set (joinRecord questById playerRecords playerById r)"
    using joinRecord_not_empty [of questById playerRecords playerById r]
    by (meson last_in_set)
  then show ?thesis by (auto dest: joinRecord_record)
qed

lemma records_of_joinRows:
  "row_record ` set (joinRows questById playerRecords playerById records) = set records"
  unfolding joinRows_concat by (induction records) (simp_all add: image_Un records_of_joinRecord)

lemma records_of_sortRows:
  "set (map row_record (sortRows lc (joinRows questById playerRecords playerById records)))
     = set records"
  by (simp add: sortRows_def set_sortBy records_of_joinRows)

lemma length_previousRows: "rows \<noteq> [] \<Longrightarrow> length (previousRows rows) = length rows"
  by (simp add: previousRows_def)

lemma data_row_rendered:
  assumes "row \<in> set rows"
  shows "dataTr True row \<in> set (tbodyRows (renderRows rows))
       \<or> dataTr False row \<in> set (tbodyRows (renderRows rows))"
proof -
  from assms obtain i where i: "i < length rows" "rows ! i = row"
    by (auto simp: in_set_conv_nth)
  then have ne: "rows \<noteq> []" by auto
  let ?prev = "previousRows rows ! i"
  from i ne have A: "emitted ?prev row \<in> set (map2 emitted (previousRows rows) rows)"
    by (force simp: in_set_conv_nth length_previousRows)
  have B: "dataTr (firstOfRecord ?prev row) row \<in> set (emitted ?prev row)"
    by (simp add: emitted_def)
  have "dataTr (firstOfRecord ?prev row) row
          \<in> set (concat (map2 emitted (previousRows rows) rows))"
    unfolding set_concat using A B by (rule UN_I)
  then have "dataTr (firstOfRecord ?prev row) row \<in> set (tbodyRows (renderRows rows))"
    unfolding renderRows_emitted .
  then show ?thesis by (cases "firstOfRecord ?prev row") simp_all
qed

text \<open>
  Claim C10. \<open>renderGroupedTable\<close> applies the limit only when it is truthy. The table
  it returns is the header and the body rows of the sorted join of the selected records:
  exactly the selected records have rows there, and each of these rows has its data row
  in the body. With a limit of 0 the selected records are all records and the table is the
  one that \<open>null\<close> gives; with a limit \<open>n \<ge> 1\<close> the selected records are exactly the
  first \<open>n\<close> records of the input list.
\<close>

theorem limitN_zero_is_no_limit:
  "selected records (Some 0) = records
   \<and> selected records None = records
   \<and> renderGroupedTable lc records questById playerRecords playerById limitN
       = ''<table class=\"pivot\">'' @ thead @ ''<tbody>''
         @ concat (tbodyRows (renderRows
             (sortRows lc (joinRows questById playerRecords playerById (selected records limitN)))))
         @ ''</tbody></table>''
   \<and> set (map row_record
           (sortRows lc (joinRows questById playerRecords playerById (selected records limitN))))
       = set (selected records limitN)
   \<and> (\<forall>row \<in> set (sortRows lc
                     (joinRows questById playerRecords playerById (selected records limitN))).
         dataTr True row \<in> set (tbodyRows (renderRows
             (sortRows lc (joinRows questById playerRecords playerById (selected records limitN)))))
         \<or> dataTr False row \<in> set (tbodyRows (renderRows
             (sortRows lc (joinRows questById playerRecords playerById (selected records limitN))))))
   \<and> renderGroupedTable lc records questById playerRecords playerById (Some 0)
       = renderGroupedTable lc records questById playerRecords playerById None
   \<and> (1 \<le> n \<longrightarrow>
        selected records (Some n) = take (nat n) records
        \<and> renderGroupedTable lc records questById playerRecords playerById (Some n)
            = renderGroupedTable lc (take (nat n) records) questById playerRecords playerById None)"
proof -
  let ?S = "sortRows lc (joinRows questById playerRecords playerById (selected records limitN))"
  have none: "selected rs None = rs" for rs :: "run list"
    by (simp add: selected_def)
  have table: "renderGroupedTable lc records questById playerRecords playerById limitN
       = ''<table class=\"pivot\">'' @ thead @ ''<tbody>''
         @ concat (tbodyRows (renderRows ?S)) @ ''</tbody></table>''"
    by (simp add: renderGroupedTable_def Let_def join_empty_sep)
  have recs: "set (map row_record ?S) = set (selected records limitN)"
    by (rule records_of_sortRows)
  have rows: "\<forall>row \<in> set ?S. dataTr True row \<in> set (tbodyRows (renderRows ?S))
         \<or> dataTr False row \<in> set (tbodyRows (renderRows ?S))"
    using data_row_rendered by blast
  have zero: "renderGroupedTable lc records questById playerRecords playerById (Some 0)
       = renderGroupedTable lc records questById playerRecords playerById None"
    by (simp add: renderGroupedTable_def selected_zero none)
  have pos: "selected records (Some n) = take (nat n) records
        \<and> renderGroupedTable lc records questById playerRecords playerById (Some n)
            = renderGroupedTable lc (take (nat n) records) questById playerRecords playerById None"
    if "1 \<le> n"
    using that by (simp add: renderGroupedTable_def selected_positive none)
  from selected_zero [of records] none [of records] table recs rows zero pos
  show ?thesis by blast
qed

text \<open>
  On the example data a limit of 2 renders the runs 3 and 2, each with its group rows
  and its data row, and not run 1.
\<close>

theorem limitN_zero_is_no_limit_witness:
  "selected example_records (Some 2) = [run3, run2]
   \<and> renderGroupedTable codeUnitCompare example_records example_questById
        example_player_records example_playerById (Some 2)
     = ''<table class=\"pivot\">'' @ thead @ ''<tbody>''
       @ groupLabelTr run3 None @ groupDividerTr @ dataTr True row_none
       @ groupLabelTr run2 (Some ''Towards the Future'') @ groupDividerTr @ dataTr True row_a
       @ ''</tbody></table>''
   \<and> thead = ''<thead><tr><th>Quest</th><th>Meta</th><th>Category</th><th>PB</th><th>Time</th><th>Rank</th><th>Player</th><th>Class</th><th>POV</th></tr></thead>''
   \<and> dataTr True row_none
     = ''<tr><td>(unknown quest)</td><td>Vanilla</td><td>1</td><td>PB</td><td>1&#39;00 Remaining</td><td>1</td><td>(none found)</td><td></td><td></td></tr>''
   \<and> dataTr True row_a
     = ''<tr><td>Towards the Future</td><td>Vanilla</td><td>2</td><td>No-PB</td><td>7&#39;34</td><td>1</td><td>O&#39;Brien &lt;3&gt;</td><td>RAmar</td><td></td></tr>''
   \<and> renderGroupedTable codeUnitCompare example_records example_questById
        example_player_records example_playerById (Some 0)
     = renderGroupedTable codeUnitCompare example_records example_questById
        example_player_records example_playerById None
   \<and> renderGroupedTable codeUnitCompare example_records example_questById
        example_player_records example_playerById None
     = ''<table class=\"pivot\">'' @ thead @ ''<tbody>''
       @ groupLabelTr run3 None @ groupDividerTr @ dataTr True row_none
       @ groupLabelTr run1 (Some ''Towards the Future'') @ groupDividerTr
       @ dataTr True row_c @ dataTr False row_b @ dataTr True row_a
       @ ''</tbody></table>''"
proof -
  note main = limitN_zero_is_no_limit
                [of example_records codeUnitCompare example_questById example_player_records
                    example_playerById]
  have two: "(1::int) \<le> 2" by simp
  have t: "take (nat 2) example_records = [run3, run2]"
    by (simp add: example_records_def)
  from main [of "None" 2] two t
  have w1: "selected example_records (Some 2) = [run3, run2]" by simp
  have body2: "concat (tbodyRows (renderRows
             (sortRows codeUnitCompare
                (joinRows example_questById example_player_records example_playerById
                   (selected example_records (Some 2))))))
     = groupLabelTr run3 None @ groupDividerTr @ dataTr True row_none
       @ groupLabelTr run2 (Some ''Towards the Future'') @ groupDividerTr @ dataTr True row_a"
    by code_simp
  from main [of "Some 2" 2]
  have "renderGroupedTable codeUnitCompare example_records example_questById
        example_player_records example_playerById (Some 2)
       = ''<table class=\"pivot\">'' @ thead @ ''<tbody>''
         @ concat (tbodyRows (renderRows
             (sortRows codeUnitCompare
                (joinRows example_questById example_player_records example_playerById
                   (selected example_records (Some 2))))))
         @ ''</tbody></table>''"
    by blast
  then have w2: "renderGroupedTable codeUnitCompare example_records example_questById
        example_player_records example_playerById (Some 2)
     = ''<table class=\"pivot\">'' @ thead @ ''<tbody>''
       @ groupLabelTr run3 None @ groupDividerTr @ dataTr True row_none
       @ groupLabelTr run2 (Some ''Towards the Future'') @ groupDividerTr @ dataTr True row_a
       @ ''</tbody></table>''"
    unfolding body2 by simp
  have w3: "thead = ''<thead><tr><th>Quest</th><th>Meta</th><th>Category</th><th>PB</th><th>Time</th><th>Rank</th><th>Player</th><th>Class</th><th>POV</th></tr></thead>''"
    by code_simp
  have w4: "dataTr True row_none
     = ''<tr><td>(unknown quest)</td><td>Vanilla</td><td>1</td><td>PB</td><td>1&#39;00 Remaining</td><td>1</td><td>(none found)</td><td></td><td></td></tr>''"
    by code_simp
  have w5: "dataTr True row_a
     = ''<tr><td>Towards the Future</td><td>Vanilla</td><td>2</td><td>No-PB</td><td>7&#39;34</td><td>1</td><td>O&#39;Brien &lt;3&gt;</td><td>RAmar</td><td></td></tr>''"
    by code_simp
  from main [of "None" 2]
  have w6: "renderGroupedTable codeUnitCompare example_records example_questById
        example_player_records example_playerById (Some 0)
     = renderGroupedTable codeUnitCompare example_records example_questById
        example_player_records example_playerById None"
    by blast
  have bodyAll: "concat (tbodyRows (renderRows
             (sortRows codeUnitCompare
                (joinRows example_questById example_player_records example_playerById
                   (selected example_records None)))))
     = groupLabelTr run3 None @ groupDividerTr @ dataTr True row_none
       @ groupLabelTr run1 (Some ''Towards the Future'') @ groupDividerTr
       @ dataTr True row_c @ dataTr False row_b @ dataTr True row_a"
    by code_simp
  from main [of "None" 2]
  have "renderGroupedTable codeUnitCompare example_records example_questById
        example_player_records example_playerById None
       = ''<table class=\"pivot\">'' @ thead @ ''<tbody>''
         @ concat (tbodyRows (renderRows
             (sortRows codeUnitCompare
                (joinRows example_questById example_player_records example_playerById
                   (selected example_records None)))))
         @ ''</tbody></table>''"
    by blast
  then have w7: "renderGroupedTable codeUnitCompare example_records example_questById
        example_player_records example_playerById None
     = ''<table class=\"pivot\">'' @ thead @ ''<tbody>''
       @ groupLabelTr run3 None @ groupDividerTr @ dataTr True row_none
       @ groupLabelTr run1 (Some ''Towards the Future'') @ groupDividerTr
       @ dataTr True row_c @ dataTr False row_b @ dataTr True row_a
       @ ''</tbody></table>''"
    unfolding bodyAll by simp
  from w1 w2 w3 w4 w5 w6 w7 show ?thesis by blast
qed

end
